theory Spec2Isabelle
  imports Complex_Main
begin

section \<open>Collision-aware inverse kinematics of reach\_ros (\<open>src/ik/moveit_ik_solver.cpp\<close>)\<close>

text \<open>
  A shallow embedding of \<^verbatim>\<open>MoveItIKSolver\<close>, \<^verbatim>\<open>DiscretizedMoveItIKSolver\<close> and their
  two factories. Conventions:
  \<^item> a C++ \<^verbatim>\<open>double\<close> is a value of the type \<open>double\<close> below: a finite value, an infinity
    or NaN, with the comparisons, \<^verbatim>\<open>std::abs\<close>, \<^verbatim>\<open>std::min\<close> and \<^verbatim>\<open>std::max\<close> of IEEE 754;
  \<^item> a C++ \<^verbatim>\<open>int\<close> is an \<^typ>\<open>int\<close> checked against the 32-bit range where it is produced;
  \<^item> a \<^verbatim>\<open>throw\<close> is the \<open>Inl\<close> branch of a result \<open>error + 'a\<close>;
  \<^item> MoveIt, Eigen, yaml-cpp and ROS are collaborators outside the repository: the
    black boxes among them (collision queries, the numerical IK search, the robot
    description, mesh loading) are the fields of the record \<open>Collaborators\<close>, the
    rest is modelled by the small definitions below;
  \<^item> \<^verbatim>\<open>utils::initROS\<close> and the node handle have no counterpart; the latched publisher
    is the list of the scene messages it has published. Arguments that do not change a
    result (the timeout \<open>0.0\<close> of \<^verbatim>\<open>setFromIK\<close>, the flag \<^verbatim>\<open>verbose = false\<close> of
    \<^verbatim>\<open>isStateColliding\<close>) are dropped.
\<close>

subsection \<open>Errors\<close>

datatype error =
  RuntimeError string      \<comment> \<open>\<^verbatim>\<open>std::runtime_error(msg)\<close>\<close>
  | LengthError            \<comment> \<open>\<^verbatim>\<open>std::length_error\<close> of \<^verbatim>\<open>std::vector::reserve\<close>\<close>
  | FloatToIntUndefined    \<comment> \<open>\<^verbatim>\<open>int(x)\<close> where \<open>x\<close> is NaN, infinite or outside the range of \<^verbatim>\<open>int\<close>\<close>

definition and_then :: "error + 'a \<Rightarrow> ('a \<Rightarrow> error + 'b) \<Rightarrow> error + 'b" where
  \<comment> \<open>Sequencing: an exception in the first statement skips the rest.\<close>
  "and_then r f = (case r of Inl e \<Rightarrow> Inl e | Inr v \<Rightarrow> f v)"

definition or_throw :: "'a option \<Rightarrow> error \<Rightarrow> error + 'a" where
  \<comment> \<open>\<^verbatim>\<open>if (!p) throw e;\<close>\<close>
  "or_throw p e = (case p of None \<Rightarrow> Inl e | Some v \<Rightarrow> Inr v)"

subsection \<open>Doubles\<close>

text \<open>
  The finite values are reals, the binary64 numbers among them. The sign of a zero is
  not kept: no result below depends on it (a quotient by either zero is an infinity
  or NaN, and neither has an \<^verbatim>\<open>int\<close> value). Sums, differences, products, sines and
  cosines of finite values are taken exactly (their rounding and overflow are not
  modelled). The quotient is rounded as binary64 does, to the nearest value of 53
  significant bits with ties to even, because the program truncates it to an \<^verbatim>\<open>int\<close>.
\<close>

datatype double = Finite real | PlusInfinity | MinusInfinity | NaN

fun less_double :: "double \<Rightarrow> double \<Rightarrow> bool" where
  \<comment> \<open>\<^verbatim>\<open>a < b\<close>: false as soon as an operand is NaN.\<close>
  "less_double NaN b = False"
| "less_double a NaN = False"
| "less_double (Finite a) (Finite b) = (a < b)"
| "less_double (Finite a) PlusInfinity = True"
| "less_double (Finite a) MinusInfinity = False"
| "less_double PlusInfinity b = False"
| "less_double MinusInfinity MinusInfinity = False"
| "less_double MinusInfinity b = True"

fun abs_double :: "double \<Rightarrow> double" where
  \<comment> \<open>\<^verbatim>\<open>std::abs\<close>\<close>
  "abs_double (Finite a) = Finite \<bar>a\<bar>"
| "abs_double PlusInfinity = PlusInfinity"
| "abs_double MinusInfinity = PlusInfinity"
| "abs_double NaN = NaN"

fun uminus_double :: "double \<Rightarrow> double" where
  "uminus_double (Finite a) = Finite (- a)"
| "uminus_double PlusInfinity = MinusInfinity"
| "uminus_double MinusInfinity = PlusInfinity"
| "uminus_double NaN = NaN"

fun plus_double :: "double \<Rightarrow> double \<Rightarrow> double" where
  "plus_double NaN b = NaN"
| "plus_double a NaN = NaN"
| "plus_double (Finite a) (Finite b) = Finite (a + b)"
| "plus_double PlusInfinity MinusInfinity = NaN"
| "plus_double MinusInfinity PlusInfinity = NaN"
| "plus_double PlusInfinity b = PlusInfinity"
| "plus_double a PlusInfinity = PlusInfinity"
| "plus_double MinusInfinity b = MinusInfinity"
| "plus_double a MinusInfinity = MinusInfinity"

definition minus_double :: "double \<Rightarrow> double \<Rightarrow> double" where
  "minus_double a b = plus_double a (uminus_double b)"

definition signed_infinity :: "real \<Rightarrow> double" where
  \<comment> \<open>The infinity of the sign of \<open>a\<close>, NaN for a zero.\<close>
  "signed_infinity a = (if a = 0 then NaN else if 0 < a then PlusInfinity else MinusInfinity)"

fun times_double :: "double \<Rightarrow> double \<Rightarrow> double" where
  "times_double NaN b = NaN"
| "times_double a NaN = NaN"
| "times_double (Finite a) (Finite b) = Finite (a * b)"
| "times_double (Finite a) PlusInfinity = signed_infinity a"
| "times_double (Finite a) MinusInfinity = signed_infinity (- a)"
| "times_double PlusInfinity (Finite b) = signed_infinity b"
| "times_double MinusInfinity (Finite b) = signed_infinity (- b)"
| "times_double PlusInfinity PlusInfinity = PlusInfinity"
| "times_double MinusInfinity MinusInfinity = PlusInfinity"
| "times_double PlusInfinity MinusInfinity = MinusInfinity"
| "times_double MinusInfinity PlusInfinity = MinusInfinity"

definition round_half_even :: "real \<Rightarrow> int" where
  "round_half_even x =
     (let f = \<lfloor>x\<rfloor>; r = x - of_int f in
      if r < 1 / 2 then f else if 1 / 2 < r then f + 1 else if even f then f else f + 1)"

definition round_to_double :: "real \<Rightarrow> real" where
  \<comment> \<open>Round to nearest, ties to even: 53 significant bits, and the fixed spacing
      \<open>2 ^ - 1074\<close> below the least normal number \<open>2 ^ - 1022\<close>.\<close>
  "round_to_double x =
     (if x = 0 then 0
      else (let e = max \<lfloor>log 2 \<bar>x\<bar>\<rfloor> (- 1022) - 52
            in of_int (round_half_even (x / 2 powi e)) * 2 powi e))"

definition DBL_MAX :: real where
  "DBL_MAX = (2 ^ 53 - 1) * 2 ^ 971"

definition rounded :: "real \<Rightarrow> double" where
  \<comment> \<open>The double of an exact result: rounded, an infinity when that overflows.\<close>
  "rounded x =
     (let r = round_to_double x in
      if DBL_MAX < r then PlusInfinity else if r < - DBL_MAX then MinusInfinity else Finite r)"

fun divide_double :: "double \<Rightarrow> double \<Rightarrow> double" where
  "divide_double NaN b = NaN"
| "divide_double a NaN = NaN"
| "divide_double (Finite a) (Finite b) = (if b = 0 then signed_infinity a else rounded (a / b))"
| "divide_double (Finite a) b = Finite 0"
| "divide_double PlusInfinity (Finite b) = (if b < 0 then MinusInfinity else PlusInfinity)"
| "divide_double MinusInfinity (Finite b) = (if b < 0 then PlusInfinity else MinusInfinity)"
| "divide_double a b = NaN"

fun sin_double :: "double \<Rightarrow> double" where
  "sin_double (Finite a) = Finite (sin a)"
| "sin_double a = NaN"

fun cos_double :: "double \<Rightarrow> double" where
  "cos_double (Finite a) = Finite (cos a)"
| "cos_double a = NaN"

definition int_to_double :: "int \<Rightarrow> double" where
  \<comment> \<open>\<^verbatim>\<open>double(i)\<close>, exact for an \<^verbatim>\<open>int\<close>\<close>
  "int_to_double i = Finite (real_of_int i)"

fun double_to_int :: "double \<Rightarrow> error + int" where
  \<comment> \<open>\<^verbatim>\<open>int(x)\<close> truncates toward zero; it is undefined when the truncated value is not
      in the range of a 32-bit \<^verbatim>\<open>int\<close>, and for an infinity or NaN.\<close>
  "double_to_int (Finite x) =
     (let t = (if 0 \<le> x then \<lfloor>x\<rfloor> else \<lceil>x\<rceil>) in
      if - (2 ^ 31) \<le> t \<and> t < 2 ^ 31 then Inr t else Inl FloatToIntUndefined)"
| "double_to_int x = Inl FloatToIntUndefined"

definition std_min :: "double \<Rightarrow> double \<Rightarrow> double" where
  \<comment> \<open>\<^verbatim>\<open>std::min(a, b)\<close> is \<^verbatim>\<open>(b < a) ? b : a\<close>\<close>
  "std_min a b = (if less_double b a then b else a)"

definition std_max :: "double \<Rightarrow> double \<Rightarrow> double" where
  \<comment> \<open>\<^verbatim>\<open>std::max(a, b)\<close> is \<^verbatim>\<open>(a < b) ? b : a\<close>\<close>
  "std_max a b = (if less_double a b then b else a)"

subsection \<open>The anonymous namespace: \<^verbatim>\<open>clamp\<close>\<close>

definition clamp :: "double \<Rightarrow> double \<Rightarrow> double \<Rightarrow> double" where
  "clamp val low high = std_max low (std_min val high)"

definition M_PI :: real where
  \<comment> \<open>The macro \<^verbatim>\<open>M_PI\<close> of \<^verbatim>\<open><cmath>\<close>: the double nearest to pi,
      \<^verbatim>\<open>0x400921FB54442D18\<close>, that is 3.14159265358979311599796346854... (below pi).\<close>
  "M_PI = 884279719003555 / 281474976710656"

subsection \<open>Eigen: \<^verbatim>\<open>Isometry3d\<close> and \<^verbatim>\<open>AngleAxisd\<close>\<close>

type_synonym Vector3d = "double \<times> double \<times> double"
type_synonym Matrix3d = "Vector3d \<times> Vector3d \<times> Vector3d"  \<comment> \<open>the three rows\<close>

record Isometry3d =
  linear :: Matrix3d
  translation :: Vector3d

datatype AngleAxisd = AngleAxisd double Vector3d   \<comment> \<open>the angle and the axis\<close>

definition UnitZ :: Vector3d where
  "UnitZ = (Finite 0, Finite 0, Finite 1)"

definition dot3 :: "double \<Rightarrow> double \<Rightarrow> double \<Rightarrow> double \<Rightarrow> double \<Rightarrow> double \<Rightarrow> double" where
  \<comment> \<open>One coefficient of a matrix product: \<open>a1 * b1 + a2 * b2 + a3 * b3\<close>.\<close>
  "dot3 a1 a2 a3 b1 b2 b3 =
     plus_double (plus_double (times_double a1 b1) (times_double a2 b2)) (times_double a3 b3)"

fun mat_mul :: "Matrix3d \<Rightarrow> Matrix3d \<Rightarrow> Matrix3d" where
  "mat_mul ((a11, a12, a13), (a21, a22, a23), (a31, a32, a33))
           ((b11, b12, b13), (b21, b22, b23), (b31, b32, b33)) =
     ((dot3 a11 a12 a13 b11 b21 b31, dot3 a11 a12 a13 b12 b22 b32, dot3 a11 a12 a13 b13 b23 b33),
      (dot3 a21 a22 a23 b11 b21 b31, dot3 a21 a22 a23 b12 b22 b32, dot3 a21 a22 a23 b13 b23 b33),
      (dot3 a31 a32 a33 b11 b21 b31, dot3 a31 a32 a33 b12 b22 b32, dot3 a31 a32 a33 b13 b23 b33))"

fun toRotationMatrix :: "AngleAxisd \<Rightarrow> Matrix3d" where
  \<comment> \<open>Eigen's formula for a unit axis: with \<open>s = sin angle\<close>, \<open>c = cos angle\<close> and
      \<open>c1 = 1 - c\<close>, the diagonal is \<open>c1 * a\<^sub>i * a\<^sub>i + c\<close> and the other coefficients are
      \<open>c1 * a\<^sub>i * a\<^sub>j\<close> plus or minus \<open>s * a\<^sub>k\<close>.\<close>
  "toRotationMatrix (AngleAxisd angle (ax, ay, az)) =
     (let s = sin_double angle; c = cos_double angle; c1 = minus_double (Finite 1) c;
          sx = times_double s ax; sy = times_double s ay; sz = times_double s az;
          cx = times_double c1 ax; cy = times_double c1 ay; cz = times_double c1 az in
      ((plus_double (times_double cx ax) c, minus_double (times_double cx ay) sz,
        plus_double (times_double cx az) sy),
       (plus_double (times_double cx ay) sz, plus_double (times_double cy ay) c,
        minus_double (times_double cy az) sx),
       (minus_double (times_double cx az) sy, plus_double (times_double cy az) sx,
        plus_double (times_double cz az) c)))"

definition times_rotation :: "Isometry3d \<Rightarrow> AngleAxisd \<Rightarrow> Isometry3d" where
  \<comment> \<open>\<^verbatim>\<open>t * r\<close> for a transform and a rotation: Eigen copies the transform and multiplies
      its linear part on the right by the rotation matrix; the translation stays.\<close>
  "times_rotation t r = t\<lparr>linear := mat_mul (linear t) (toRotationMatrix r)\<rparr>"

subsection \<open>MoveIt: robot model, robot state, planning scene\<close>

text \<open>
  A joint model group has its active joints and its variables. A revolute or
  prismatic joint has one variable, named as the joint; a planar joint has three and a
  floating joint seven, and a mimic joint contributes its variable without being
  active. MoveIt reads and writes the positions of a group by variable.
\<close>

record JointModelGroup =
  getName :: string
  getActiveJointModelNames :: "string list"
  getVariableNames :: "string list"
  getBaseFrame :: string   \<comment> \<open>\<^verbatim>\<open>getSolverInstance()->getBaseFrame()\<close>\<close>

record RobotModel =
  getJointModelGroup :: "string \<rightharpoonup> JointModelGroup"   \<comment> \<open>\<open>None\<close> is the null pointer\<close>

type_synonym RobotState = "string \<Rightarrow> double"   \<comment> \<open>the position of every variable\<close>

definition new_RobotState :: "RobotModel \<Rightarrow> RobotState" where
  "new_RobotState m = (\<lambda>_. Finite 0)"

fun assign_positions :: "RobotState \<Rightarrow> string list \<Rightarrow> double list \<Rightarrow> RobotState" where
  "assign_positions st (n # ns) (v # vs) = assign_positions (st(n := v)) ns vs"
| "assign_positions st _ _ = st"

definition setJointGroupPositions :: "RobotState \<Rightarrow> JointModelGroup \<Rightarrow> double list \<Rightarrow> RobotState" where
  \<comment> \<open>The values are taken in the order of the group's variables. MoveIt expects one
      value per variable; of a shorter vector the model writes the values there are.\<close>
  "setJointGroupPositions st g vals = assign_positions st (getVariableNames g) vals"

definition copyJointGroupPositions :: "RobotState \<Rightarrow> JointModelGroup \<Rightarrow> double list" where
  \<comment> \<open>One value per variable of the group, in the order of the variables.\<close>
  "copyJointGroupPositions st g = map st (getVariableNames g)"

record CollisionObject =
  object_id :: string
  frame_id :: string
  mesh_resource :: string

type_synonym AllowedCollisionMatrix = "string \<times> string \<rightharpoonup> bool"

record PlanningScene =
  world_objects :: "string \<rightharpoonup> CollisionObject"
  acm :: AllowedCollisionMatrix

definition new_PlanningScene :: "RobotModel \<Rightarrow> PlanningScene" where
  "new_PlanningScene m = \<lparr>world_objects = Map.empty, acm = Map.empty\<rparr>"

fun setEntry :: "AllowedCollisionMatrix \<Rightarrow> string \<Rightarrow> string list \<Rightarrow> bool \<Rightarrow> AllowedCollisionMatrix" where
  "setEntry m name [] allowed = m"
| "setEntry m name (l # ls) allowed = setEntry (m((name, l) \<mapsto> allowed, (l, name) \<mapsto> allowed)) name ls allowed"

subsection \<open>The collaborators that stay black boxes\<close>

record Collaborators =
  getSharedRobotModel :: "string \<rightharpoonup> RobotModel"
  isStateColliding :: "PlanningScene \<Rightarrow> RobotState \<Rightarrow> string \<Rightarrow> bool"
  distanceToCollision :: "PlanningScene \<Rightarrow> RobotState \<Rightarrow> AllowedCollisionMatrix \<Rightarrow> double"
  searchPositionIK :: "JointModelGroup \<Rightarrow> Isometry3d \<Rightarrow> double list \<Rightarrow> double list list"
    \<comment> \<open>the candidates the numerical routine proposes for a target and a seed, in order\<close>
  mesh_loads :: "string \<Rightarrow> bool"
  processCollisionObjectMsg_ok :: "CollisionObject \<Rightarrow> bool"

subsection \<open>yaml-cpp and \<^verbatim>\<open>reach::get\<close>\<close>

datatype yaml_value = YString string | YDouble double | YStrings "string list"

type_synonym YAML_Node = "string \<rightharpoonup> yaml_value"   \<comment> \<open>\<^verbatim>\<open>config[key]\<close> is defined iff \<open>config key \<noteq> None\<close>\<close>

definition failed_to_load :: "string \<Rightarrow> error" where
  "failed_to_load key = RuntimeError (''Failed to load parameter '' @ key)"

definition get_string :: "YAML_Node \<Rightarrow> string \<Rightarrow> error + string" where
  "get_string config key =
     (case config key of Some (YString v) \<Rightarrow> Inr v | _ \<Rightarrow> Inl (failed_to_load key))"

definition get_double :: "YAML_Node \<Rightarrow> string \<Rightarrow> error + double" where
  \<comment> \<open>A YAML scalar can be \<^verbatim>\<open>.nan\<close> or \<^verbatim>\<open>.inf\<close>: every double can be read.\<close>
  "get_double config key =
     (case config key of Some (YDouble v) \<Rightarrow> Inr v | _ \<Rightarrow> Inl (failed_to_load key))"

definition get_strings :: "YAML_Node \<Rightarrow> string \<Rightarrow> error + string list" where
  "get_strings config key =
     (case config key of Some (YStrings v) \<Rightarrow> Inr v | _ \<Rightarrow> Inl (failed_to_load key))"

subsection \<open>\<^verbatim>\<open>reach_ros::utils\<close>\<close>

definition transcribeInputMap :: "(string \<rightharpoonup> double) \<Rightarrow> string list \<Rightarrow> RobotState \<Rightarrow> double list" where
  \<comment> \<open>Modelled from the spec: \<^verbatim>\<open>utils::transcribeInputMap\<close> (\<^verbatim>\<open>reach_ros/utils.h\<close>) is not
      in the file. The seed map is converted to the values of the chain's joints, in
      joint order; a missing name takes the chain's current value (the third argument,
      which the call site reads from its working state), extra names are ignored.\<close>
  "transcribeInputMap input joint_names current =
     map (\<lambda>name. case input name of Some v \<Rightarrow> v | None \<Rightarrow> current name) joint_names"

definition createCollisionObject :: "Collaborators \<Rightarrow> string \<Rightarrow> string \<Rightarrow> string \<Rightarrow> error + CollisionObject" where
  \<comment> \<open>Modelled from the spec: \<^verbatim>\<open>utils::createCollisionObject\<close> is not in the file. It
      builds the obstacle from a mesh file, a frame and a name, and fails if the file
      cannot be read or parsed.\<close>
  "createCollisionObject env filename frame name =
     (if mesh_loads env filename
      then Inr \<lparr>object_id = name, frame_id = frame, mesh_resource = filename\<rparr>
      else Inl (RuntimeError (''Failed to load mesh '' @ filename)))"

subsection \<open>\<^verbatim>\<open>MoveItIKSolver\<close>\<close>

record MoveItIKSolver =
  model :: RobotModel
  jmg :: JointModelGroup
  distance_threshold :: double
  scene :: PlanningScene
  scene_pub :: "PlanningScene list"   \<comment> \<open>the messages published on \<^verbatim>\<open>planning_scene\<close>, oldest first\<close>

definition COLLISION_OBJECT_NAME :: string where
  "COLLISION_OBJECT_NAME = ''reach_object''"

definition new_MoveItIKSolver :: "RobotModel \<Rightarrow> string \<Rightarrow> double \<Rightarrow> error + MoveItIKSolver" where
  "new_MoveItIKSolver m planning_group dist_threshold =
     (case getJointModelGroup m planning_group of
        None \<Rightarrow> Inl (RuntimeError (''Failed to initialize joint model group for planning group ''
                                    @ [CHR 0x27] @ planning_group @ [CHR 0x27]))
      | Some g \<Rightarrow>
          (let sc = new_PlanningScene m in
           Inr \<lparr>model = m, jmg = g, distance_threshold = dist_threshold,
                scene = sc, scene_pub = [sc]\<rparr>))"

definition isIKSolutionValid ::
  "Collaborators \<Rightarrow> 'a MoveItIKSolver_scheme \<Rightarrow> RobotState \<Rightarrow> JointModelGroup \<Rightarrow> double list \<Rightarrow> bool \<times> RobotState" where
  \<comment> \<open>The callback writes through \<^verbatim>\<open>state\<close>: the posed state is returned with the verdict.\<close>
  "isIKSolutionValid env s state g ik_solution =
     (let state' = setJointGroupPositions state g ik_solution;
          colliding = isStateColliding env (scene s) state' (getName g);
          too_close = less_double (distanceToCollision env (scene s) state' (acm (scene s)))
                        (distance_threshold s)
      in (\<not> colliding \<and> \<not> too_close, state'))"

text \<open>
  \<^verbatim>\<open>RobotState::setFromIK\<close> with a validity callback: the numerical routine offers its
  candidates to the callback one after the other; the first one accepted is written
  to the state and the call returns true, and it returns false when none is.
\<close>

fun setFromIK_search ::
  "(RobotState \<Rightarrow> JointModelGroup \<Rightarrow> double list \<Rightarrow> bool \<times> RobotState) \<Rightarrow> RobotState \<Rightarrow> JointModelGroup
     \<Rightarrow> double list list \<Rightarrow> bool \<times> RobotState" where
  "setFromIK_search constraint state g [] = (False, state)"
| "setFromIK_search constraint state g (sol # sols) =
     (let (ok, state') = constraint state g sol in
      if ok then (True, setJointGroupPositions state' g sol)
      else setFromIK_search constraint state' g sols)"

definition setFromIK ::
  "Collaborators \<Rightarrow> RobotState \<Rightarrow> JointModelGroup \<Rightarrow> Isometry3d
     \<Rightarrow> (RobotState \<Rightarrow> JointModelGroup \<Rightarrow> double list \<Rightarrow> bool \<times> RobotState) \<Rightarrow> bool \<times> RobotState" where
  "setFromIK env state g target constraint =
     setFromIK_search constraint state g
       (searchPositionIK env g target (copyJointGroupPositions state g))"

definition MoveItIKSolver_solveIK ::
  "Collaborators \<Rightarrow> 'a MoveItIKSolver_scheme \<Rightarrow> Isometry3d \<Rightarrow> (string \<rightharpoonup> double) \<Rightarrow> double list list" where
  "MoveItIKSolver_solveIK env s target seed =
     (let state = new_RobotState (model s);
          joint_names = getActiveJointModelNames (jmg s);
          seed_subset = transcribeInputMap seed joint_names state;
          state = setJointGroupPositions state (jmg s) seed_subset;
          (found, state) = setFromIK env state (jmg s) target (isIKSolutionValid env s)
      in if found then [copyJointGroupPositions state (jmg s)] else [])"


definition addCollisionMesh ::
  "Collaborators \<Rightarrow> 'a MoveItIKSolver_scheme \<Rightarrow> string \<Rightarrow> string \<Rightarrow> error + 'a MoveItIKSolver_scheme" where
  "addCollisionMesh env s collision_mesh_filename collision_mesh_frame =
     and_then (createCollisionObject env collision_mesh_filename collision_mesh_frame
                 COLLISION_OBJECT_NAME) (\<lambda>obj.
     if \<not> processCollisionObjectMsg_ok env obj
     then Inl (RuntimeError ''Failed to add collision mesh to planning scene'')
     else (let sc = (scene s)\<lparr>world_objects := (world_objects (scene s))(object_id obj \<mapsto> obj)\<rparr>
           in Inr (s\<lparr>scene := sc, scene_pub := scene_pub s @ [sc]\<rparr>)))"

definition setTouchLinks :: "'a MoveItIKSolver_scheme \<Rightarrow> string list \<Rightarrow> 'a MoveItIKSolver_scheme" where
  "setTouchLinks s touch_links =
     s\<lparr>scene := (scene s)\<lparr>acm := setEntry (acm (scene s)) COLLISION_OBJECT_NAME touch_links True\<rparr>\<rparr>"

definition getKinematicBaseFrame :: "'a MoveItIKSolver_scheme \<Rightarrow> string" where
  "getKinematicBaseFrame s = getBaseFrame (jmg s)"

subsection \<open>\<^verbatim>\<open>MoveItIKSolverFactory::create\<close>\<close>

definition collision_mesh_filename_key :: string where
  "collision_mesh_filename_key = ''collision_mesh_filename''"

definition collision_mesh_frame_key :: string where
  "collision_mesh_frame_key = ''collision_mesh_key''"

definition touch_links_key :: string where
  "touch_links_key = ''touch_links''"

definition MoveItIKSolverFactory_create :: "Collaborators \<Rightarrow> YAML_Node \<Rightarrow> error + MoveItIKSolver" where
  "MoveItIKSolverFactory_create env config =
     and_then (get_string config ''planning_group'') (\<lambda>planning_group.
     and_then (get_double config ''distance_threshold'') (\<lambda>dist_threshold.
     and_then (or_throw (getSharedRobotModel env ''robot_description'')
                 (RuntimeError ''Failed to initialize robot model pointer'')) (\<lambda>m.
     and_then (new_MoveItIKSolver m planning_group dist_threshold) (\<lambda>ik_solver.
     and_then
       (if config collision_mesh_filename_key \<noteq> None
        then and_then (get_string config collision_mesh_filename_key) (\<lambda>collision_mesh_filename.
             and_then (if config collision_mesh_frame_key \<noteq> None
                       then get_string config collision_mesh_frame_key
                       else Inr (getKinematicBaseFrame ik_solver)) (\<lambda>collision_mesh_frame.
             addCollisionMesh env ik_solver collision_mesh_filename collision_mesh_frame))
        else Inr ik_solver) (\<lambda>ik_solver.
     if config touch_links_key \<noteq> None
     then and_then (get_strings config touch_links_key) (\<lambda>touch_links.
          Inr (setTouchLinks ik_solver touch_links))
     else Inr ik_solver)))))"

subsection \<open>\<^verbatim>\<open>DiscretizedMoveItIKSolver\<close>\<close>

record DiscretizedMoveItIKSolver = MoveItIKSolver +
  dt :: double

definition new_DiscretizedMoveItIKSolver ::
  "RobotModel \<Rightarrow> string \<Rightarrow> double \<Rightarrow> double \<Rightarrow> error + DiscretizedMoveItIKSolver" where
  "new_DiscretizedMoveItIKSolver m planning_group dist_threshold d =
     and_then (new_MoveItIKSolver m planning_group dist_threshold) (\<lambda>b.
     Inr \<lparr>model = model b, jmg = jmg b, distance_threshold = distance_threshold b,
          scene = scene b, scene_pub = scene_pub b, dt = d\<rparr>)"

text \<open>
  The function-local \<^verbatim>\<open>const static int n_discretizations\<close> lives in the process, not in
  a solver: \<open>None\<close> until the first call of \<^verbatim>\<open>DiscretizedMoveItIKSolver::solveIK\<close> has
  run its initialiser, \<open>Some n\<close> from then on.
\<close>

record Process =
  n_discretizations :: "int option"

definition init_n_discretizations :: "double \<Rightarrow> error + int" where
  \<comment> \<open>The initialiser \<^verbatim>\<open>int((2.0 * M_PI) / dt_)\<close>: the product by \<open>2.0\<close> is exact, the
      quotient is rounded, and the rounded quotient is truncated.\<close>
  "init_n_discretizations d =
     double_to_int (divide_double (times_double (Finite 2) (Finite M_PI)) d)"

text \<open>
  The loop of \<^verbatim>\<open>solveIK\<close>. Next to \<^verbatim>\<open>solutions\<close> it keeps a log of the targets handed to
  \<^verbatim>\<open>MoveItIKSolver::solveIK\<close>, one entry per call, so that the attempts can be counted.
\<close>

function solveIK_loop ::
  "Collaborators \<Rightarrow> DiscretizedMoveItIKSolver \<Rightarrow> Isometry3d \<Rightarrow> (string \<rightharpoonup> double) \<Rightarrow> int \<Rightarrow> int
     \<Rightarrow> double list list \<times> Isometry3d list \<Rightarrow> double list list \<times> Isometry3d list" where
  "solveIK_loop env s target seed n i (solutions, calls) =
     (if i < n then
        (let discretized_target =
               times_rotation target (AngleAxisd (times_double (int_to_double i) (dt s)) UnitZ);
             tmp_sols = MoveItIKSolver_solveIK env s discretized_target seed
         in solveIK_loop env s target seed n (i + 1)
              (if tmp_sols \<noteq> [] then solutions @ [hd tmp_sols] else solutions,
               calls @ [discretized_target]))
      else (solutions, calls))"
  by pat_completeness auto
termination
  by (relation "measure (\<lambda>(env, s, target, seed, n, i, acc). nat (n - i))") auto

declare solveIK_loop.simps [simp del]

definition DiscretizedMoveItIKSolver_solveIK ::
  "Collaborators \<Rightarrow> Process \<Rightarrow> DiscretizedMoveItIKSolver \<Rightarrow> Isometry3d \<Rightarrow> (string \<rightharpoonup> double)
     \<Rightarrow> (error + double list list \<times> Isometry3d list) \<times> Process" where
  \<comment> \<open>Returns the solutions with the call log, and the process after the call.\<close>
  "DiscretizedMoveItIKSolver_solveIK env proc s target seed =
     (case (case n_discretizations proc of
              Some n \<Rightarrow> Inr n
            | None \<Rightarrow> init_n_discretizations (dt s)) of
        Inl e \<Rightarrow> (Inl e, proc)
      | Inr n \<Rightarrow>
          (let proc' = proc\<lparr>n_discretizations := Some n\<rparr> in
           if n < 0 then (Inl LengthError, proc')   \<comment> \<open>\<^verbatim>\<open>solutions.reserve(n_discretizations)\<close>\<close>
           else (Inr (solveIK_loop env s target seed n 0 ([], [])), proc')))"

subsection \<open>\<^verbatim>\<open>DiscretizedMoveItIKSolverFactory::create\<close>\<close>

datatype message =
  ClampingMessage double
    \<comment> \<open>\<^verbatim>\<open>"Clamping discretization angle between 0 and pi; new value is " << clamped_dt\<close>\<close>

definition DiscretizedMoveItIKSolverFactory_create ::
  "Collaborators \<Rightarrow> YAML_Node \<Rightarrow> message list \<times> (error + DiscretizedMoveItIKSolver)" where
  \<comment> \<open>Returns what was written to \<^verbatim>\<open>std::cout\<close>, and the solver or the exception.\<close>
  "DiscretizedMoveItIKSolverFactory_create env config =
     (case and_then (get_string config ''planning_group'') (\<lambda>planning_group.
           and_then (get_double config ''distance_threshold'') (\<lambda>dist_threshold.
           and_then (or_throw (getSharedRobotModel env ''robot_description'')
                       (RuntimeError ''Failed to initialize robot model pointer'')) (\<lambda>m.
           and_then (get_double config ''discretization_angle'') (\<lambda>angle.
           Inr (planning_group, dist_threshold, m, angle))))) of
        Inl e \<Rightarrow> ([], Inl e)
      | Inr (planning_group, dist_threshold, m, angle) \<Rightarrow>
          (let dt0 = abs_double angle;
               clamped_dt = clamp dt0 (Finite 0) (Finite M_PI);
               cout = (if less_double (Finite (1 / 10 ^ 6)) (abs_double (minus_double dt0 clamped_dt))
                       then [ClampingMessage clamped_dt] else []);
               dt1 = clamped_dt
           in (cout,
               and_then (new_DiscretizedMoveItIKSolver m planning_group dist_threshold dt1) (\<lambda>ik_solver.
               and_then
                 (if config collision_mesh_filename_key \<noteq> None
                  then and_then (get_string config collision_mesh_filename_key) (\<lambda>collision_mesh_filename.
                       and_then (if config collision_mesh_frame_key \<noteq> None
                                 then get_string config collision_mesh_frame_key
                                 else Inr (getKinematicBaseFrame ik_solver)) (\<lambda>collision_mesh_frame.
                       addCollisionMesh env ik_solver collision_mesh_filename collision_mesh_frame))
                  else Inr ik_solver) (\<lambda>ik_solver.
               if config touch_links_key \<noteq> None
               then and_then (get_strings config touch_links_key) (\<lambda>touch_links.
                    Inr (setTouchLinks ik_solver touch_links))
               else Inr ik_solver)))))"

subsection \<open>Several calls in one process\<close>

fun calls_in_process ::
  "Collaborators \<Rightarrow> Process \<Rightarrow> (DiscretizedMoveItIKSolver \<times> Isometry3d \<times> (string \<rightharpoonup> double)) list
     \<Rightarrow> (error + double list list \<times> Isometry3d list) list \<times> Process" where
  "calls_in_process env proc [] = ([], proc)"
| "calls_in_process env proc ((s, target, seed) # cs) =
     (let (r, proc') = DiscretizedMoveItIKSolver_solveIK env proc s target seed;
          (rs, proc'') = calls_in_process env proc' cs
      in (r # rs, proc''))"

subsection \<open>Vocabulary of the statements\<close>

fun less_eq_double :: "double \<Rightarrow> double \<Rightarrow> bool" where
  \<comment> \<open>\<^verbatim>\<open>a <= b\<close>, which is \<^verbatim>\<open>b >= a\<close>: false as soon as an operand is NaN.\<close>
  "less_eq_double NaN b = False"
| "less_eq_double a NaN = False"
| "less_eq_double (Finite a) (Finite b) = (a \<le> b)"
| "less_eq_double MinusInfinity b = True"
| "less_eq_double a PlusInfinity = True"
| "less_eq_double a b = False"

definition seed_state :: "'a MoveItIKSolver_scheme \<Rightarrow> (string \<rightharpoonup> double) \<Rightarrow> RobotState" where
  \<comment> \<open>The working state of \<^verbatim>\<open>MoveItIKSolver::solveIK\<close> when it calls \<^verbatim>\<open>setFromIK\<close>.\<close>
  "seed_state s seed =
     setJointGroupPositions (new_RobotState (model s)) (jmg s)
       (transcribeInputMap seed (getActiveJointModelNames (jmg s)) (new_RobotState (model s)))"

definition candidates :: "Collaborators \<Rightarrow> 'a MoveItIKSolver_scheme \<Rightarrow> Isometry3d \<Rightarrow> (string \<rightharpoonup> double) \<Rightarrow> double list list" where
  \<comment> \<open>What the numerical routine proposes in that call.\<close>
  "candidates env s target seed =
     searchPositionIK env (jmg s) target (copyJointGroupPositions (seed_state s seed) (jmg s))"

definition accepted_state :: "Collaborators \<Rightarrow> 'a MoveItIKSolver_scheme \<Rightarrow> Isometry3d \<Rightarrow> (string \<rightharpoonup> double) \<Rightarrow> RobotState" where
  \<comment> \<open>The working state of \<^verbatim>\<open>MoveItIKSolver::solveIK\<close> when \<^verbatim>\<open>setFromIK\<close> has returned.\<close>
  "accepted_state env s target seed =
     snd (setFromIK env (seed_state s seed) (jmg s) target (isIKSolutionValid env s))"


definition candidate_pose :: "Isometry3d \<Rightarrow> double \<Rightarrow> int \<Rightarrow> Isometry3d" where
  \<comment> \<open>The target composed on the right with the rotation by \<open>i * d\<close> about its Z axis.\<close>
  "candidate_pose target d i =
     times_rotation target (AngleAxisd (times_double (int_to_double i) d) UnitZ)"

definition attempt ::
  "Collaborators \<Rightarrow> DiscretizedMoveItIKSolver \<Rightarrow> Isometry3d \<Rightarrow> (string \<rightharpoonup> double) \<Rightarrow> int \<Rightarrow> double list list" where
  \<comment> \<open>The base solve of sample \<open>i\<close>.\<close>
  "attempt env s target seed i = MoveItIKSolver_solveIK env s (candidate_pose target (dt s) i) seed"

definition Rz :: "real \<Rightarrow> Matrix3d" where
  \<comment> \<open>The rotation matrix of the finite angle \<open>a\<close> about Z.\<close>
  "Rz a = ((Finite (cos a), Finite (- sin a), Finite 0),
           (Finite (sin a), Finite (cos a), Finite 0),
           (Finite 0, Finite 0, Finite 1))"

definition mesh_frame :: "error + 'a MoveItIKSolver_scheme \<Rightarrow> string option" where
  \<comment> \<open>The frame of the obstacle in the scene of the solver a factory returned.\<close>
  "mesh_frame r =
     (case r of
        Inl e \<Rightarrow> None
      | Inr s \<Rightarrow> map_option frame_id (world_objects (scene s) COLLISION_OBJECT_NAME))"

definition attempts_made :: "error + double list list \<times> Isometry3d list \<Rightarrow> nat option" where
  \<comment> \<open>The number of base solves of a call of the discretized \<open>solveIK\<close> that returned.\<close>
  "attempts_made r = (case r of Inl e \<Rightarrow> None | Inr (sols, calls) \<Rightarrow> Some (length calls))"

subsection \<open>A concrete robot, scene and configuration\<close>

definition Identity :: Isometry3d where
  "Identity = \<lparr>linear = ((Finite 1, Finite 0, Finite 0), (Finite 0, Finite 1, Finite 0),
                         (Finite 0, Finite 0, Finite 1)),
               translation = (Finite 0, Finite 0, Finite 0)\<rparr>"

definition quarter_turn :: Isometry3d where
  \<comment> \<open>A quarter turn about Z, placed at \<open>(1, 2, 3)\<close>.\<close>
  "quarter_turn = \<lparr>linear = ((Finite 0, Finite (- 1), Finite 0), (Finite 1, Finite 0, Finite 0),
                             (Finite 0, Finite 0, Finite 1)),
                   translation = (Finite 1, Finite 2, Finite 3)\<rparr>"

definition example_group :: JointModelGroup where
  \<comment> \<open>Two revolute joints: the variables are the joints.\<close>
  "example_group = \<lparr>getName = ''arm'', getActiveJointModelNames = [''j1'', ''j2''],
                     getVariableNames = [''j1'', ''j2''], getBaseFrame = ''base_link''\<rparr>"

definition planar_group :: JointModelGroup where
  \<comment> \<open>One planar joint: one active joint, three variables.\<close>
  "planar_group = \<lparr>getName = ''base'', getActiveJointModelNames = [''world_joint''],
                    getVariableNames = [''world_joint/x'', ''world_joint/y'', ''world_joint/theta''],
                    getBaseFrame = ''world''\<rparr>"

definition example_model :: RobotModel where
  "example_model = \<lparr>getJointModelGroup = [''arm'' \<mapsto> example_group, ''base'' \<mapsto> planar_group]\<rparr>"

definition example_env :: Collaborators where
  \<comment> \<open>The robot collides when \<open>j1\<close> is negative and its clearance is the value of \<open>j2\<close>.
      For the arm the numerical routine has four candidates for a target that is not
      rotated and none for any other; for the planar base it has one.\<close>
  "example_env =
     \<lparr>getSharedRobotModel = [''robot_description'' \<mapsto> example_model],
      isStateColliding = (\<lambda>sc st name. less_double (st ''j1'') (Finite 0)),
      distanceToCollision = (\<lambda>sc st m. st ''j2''),
      searchPositionIK = (\<lambda>g target seed.
         if getName g = ''base'' then [[Finite 1, Finite 2, Finite 3]]
         else if fst (fst (linear target)) = Finite 1
              then [[Finite (- 1), Finite 1], [Finite 1, Finite 0], [Finite 1, Finite 1],
                    [Finite 2, Finite 2]]
              else []),
      mesh_loads = (\<lambda>filename. True),
      processCollisionObjectMsg_ok = (\<lambda>obj. True)\<rparr>"

definition uniform_env :: Collaborators where
  \<comment> \<open>As \<open>example_env\<close>, with a numerical routine that proposes the same one candidate
      for every target.\<close>
  "uniform_env = example_env\<lparr>searchPositionIK := (\<lambda>g target seed. [[Finite 1, Finite 1]])\<rparr>"

definition example_config :: YAML_Node where
  "example_config =
     [''planning_group'' \<mapsto> YString ''arm'', ''distance_threshold'' \<mapsto> YDouble (Finite (1 / 2))]"

definition example_solver :: "double \<Rightarrow> DiscretizedMoveItIKSolver" where
  \<comment> \<open>What the discretized factory builds from \<open>example_config\<close> and a clamped angle \<open>d\<close>.\<close>
  "example_solver d =
     \<lparr>model = example_model, jmg = example_group, distance_threshold = Finite (1 / 2),
      scene = new_PlanningScene example_model, scene_pub = [new_PlanningScene example_model],
      dt = d\<rparr>"

definition nan_solver :: MoveItIKSolver where
  \<comment> \<open>What the factory builds from \<open>example_config\<close> with \<^verbatim>\<open>distance_threshold: .nan\<close>.\<close>
  "nan_solver =
     \<lparr>model = example_model, jmg = example_group, distance_threshold = NaN,
      scene = new_PlanningScene example_model, scene_pub = [new_PlanningScene example_model]\<rparr>"



definition mesh_config :: YAML_Node where
  "mesh_config = example_config(''collision_mesh_filename'' \<mapsto> YString ''part.ply'')"

definition fresh_process :: Process where
  "fresh_process = \<lparr>n_discretizations = None\<rparr>"

section \<open>Properties\<close>

subsection \<open>Doubles\<close>

lemma floor_log2_between:
  assumes "2 ^ k \<le> x" and "x < 2 ^ Suc k"
  shows "\<lfloor>log 2 x\<rfloor> = int k"
proof -
  have x: "0 < x" using assms(1) by (smt (verit) zero_less_power)
  have "2 powr real_of_int (int k) \<le> x \<and> x < 2 powr real_of_int (int k + 1)"
    using assms by (simp add: powr_realpow powr_add)
  with x show ?thesis
    by (simp add: floor_log_eq_powr_iff)
qed

lemma round_to_double_normal:
  assumes "2 ^ k \<le> x" and "x < 2 ^ Suc k" and "k \<le> 52"
  shows "round_to_double x = of_int (round_half_even (x * 2 ^ (52 - k))) / 2 ^ (52 - k)"
proof -
  have x: "0 < x" using assms(1) by (smt (verit) zero_less_power)
  have ax: "\<bar>x\<bar> = x" using x by simp
  have fl: "\<lfloor>log 2 x\<rfloor> = int k"
    by (rule floor_log2_between [OF assms(1,2)])
  have e: "max (int k) (- 1022) - 52 = - int (52 - k)"
    using assms(3) by simp
  have p: "(2::real) powi (- int (52 - k)) = 1 / 2 ^ (52 - k)"
    by (simp add: power_int_minus_divide)
  have "round_to_double x
          = of_int (round_half_even (x / 2 powi (- int (52 - k)))) * 2 powi (- int (52 - k))"
    using x unfolding round_to_double_def Let_def ax fl e by simp
  then show ?thesis
    by (simp add: p)
qed

lemma rounded_2: "rounded 2 = Finite 2"
  using round_to_double_normal [of 1 2]
  by (simp add: rounded_def round_half_even_def DBL_MAX_def)

lemma rounded_4: "rounded 4 = Finite 4"
  using round_to_double_normal [of 2 4]
  by (simp add: rounded_def round_half_even_def DBL_MAX_def)

lemma less_double_irrefl: "\<not> less_double a a"
  by (cases a) simp_all

lemma not_less_double_iff:
  "a \<noteq> NaN \<Longrightarrow> b \<noteq> NaN \<Longrightarrow> \<not> less_double a b \<longleftrightarrow> less_eq_double b a"
  by (cases a; cases b) auto

lemma not_less_double_NaN: "\<not> less_double a NaN" "\<not> less_double NaN b"
  by (cases a) simp_all

lemma not_less_eq_double_NaN: "\<not> less_eq_double a NaN" "\<not> less_eq_double NaN b"
  by (cases a) simp_all

lemma clamp_Finite: "clamp (Finite v) (Finite l) (Finite h) = Finite (max l (min v h))"
  by (simp add: clamp_def std_min_def std_max_def max_def min_def)

lemma clamp_abs_cases:
  "clamp (abs_double angle) (Finite 0) (Finite M_PI) =
     (case angle of Finite a \<Rightarrow> Finite (max 0 (min \<bar>a\<bar> M_PI))
      | PlusInfinity \<Rightarrow> Finite M_PI | MinusInfinity \<Rightarrow> Finite M_PI | NaN \<Rightarrow> Finite 0)"
  by (cases angle) (simp_all add: clamp_def std_min_def std_max_def M_PI_def max_def min_def)

lemma M_PI_pos: "0 < M_PI"
  by (simp add: M_PI_def)

lemma clamp_bounds:
  "\<exists>c. clamp (abs_double angle) (Finite 0) (Finite M_PI) = Finite c \<and> 0 \<le> c \<and> c \<le> M_PI"
  using M_PI_pos by (simp add: clamp_abs_cases split: double.splits)

lemma clamp_idem:
  "clamp (abs_double (clamp (abs_double angle) (Finite 0) (Finite M_PI))) (Finite 0) (Finite M_PI)
     = clamp (abs_double angle) (Finite 0) (Finite M_PI)"
  by (cases angle) (auto simp: clamp_def std_min_def std_max_def M_PI_def)

lemma clamp_zero_iff:
  "clamp (abs_double angle) (Finite 0) (Finite M_PI) = Finite 0 \<longleftrightarrow> angle = Finite 0 \<or> angle = NaN"
  by (cases angle) (auto simp: clamp_def std_min_def std_max_def M_PI_def)

subsection \<open>Configuration lookups and the discretized factory\<close>

lemma get_other_key:
  "key \<noteq> k \<Longrightarrow> get_string (config(k \<mapsto> v)) key = get_string config key"
  "key \<noteq> k \<Longrightarrow> get_double (config(k \<mapsto> v)) key = get_double config key"
  "key \<noteq> k \<Longrightarrow> get_strings (config(k \<mapsto> v)) key = get_strings config key"
  by (simp_all add: get_string_def get_double_def get_strings_def)

lemma get_double_upd: "get_double (config(k \<mapsto> YDouble a)) k = Inr a"
  by (simp add: get_double_def)

lemma new_Discretized_dt:
  "new_DiscretizedMoveItIKSolver m pg thr d = Inr s \<Longrightarrow> dt s = d"
  by (auto simp: new_DiscretizedMoveItIKSolver_def and_then_def split: sum.splits)

lemma addCollisionMesh_dt:
  "addCollisionMesh env s f fr = Inr s' \<Longrightarrow> dt s' = dt s"
  by (auto simp: addCollisionMesh_def and_then_def Let_def split: sum.splits if_splits)

lemma setTouchLinks_dt: "dt (setTouchLinks s ls) = dt s"
  by (simp add: setTouchLinks_def)

lemma create_dt:
  assumes "snd (DiscretizedMoveItIKSolverFactory_create env
                  (config(''discretization_angle'' \<mapsto> YDouble angle))) = Inr s"
  shows "dt s = clamp (abs_double angle) (Finite 0) (Finite M_PI)"
  using assms
  unfolding DiscretizedMoveItIKSolverFactory_create_def
  by (auto simp: and_then_def Let_def get_double_upd setTouchLinks_dt
      split: sum.splits if_splits prod.splits dest!: new_Discretized_dt addCollisionMesh_dt)

lemma create_same:
  "snd (DiscretizedMoveItIKSolverFactory_create env
          (config(''discretization_angle'' \<mapsto> YDouble angle)))
   = snd (DiscretizedMoveItIKSolverFactory_create env
            (config(''discretization_angle''
               \<mapsto> YDouble (clamp (abs_double angle) (Finite 0) (Finite M_PI)))))"
  unfolding DiscretizedMoveItIKSolverFactory_create_def
  by (cases "get_string config ''planning_group''"; cases "get_double config ''distance_threshold''";
      cases "getSharedRobotModel env ''robot_description''")
     (simp_all add: get_other_key get_double_upd clamp_idem Let_def and_then_def or_throw_def
      collision_mesh_filename_key_def collision_mesh_frame_key_def touch_links_key_def
      cong: if_cong)

lemma create_cout:
  assumes "get_string config ''planning_group'' = Inr pg"
    and "get_double config ''distance_threshold'' = Inr thr"
    and "getSharedRobotModel env ''robot_description'' = Some m"
  shows "fst (DiscretizedMoveItIKSolverFactory_create env
                (config(''discretization_angle'' \<mapsto> YDouble angle)))
     = (if less_double (Finite (1 / 10 ^ 6))
             (abs_double (minus_double (abs_double angle)
                (clamp (abs_double angle) (Finite 0) (Finite M_PI))))
        then [ClampingMessage (clamp (abs_double angle) (Finite 0) (Finite M_PI))] else [])"
  using assms
  unfolding DiscretizedMoveItIKSolverFactory_create_def
  by (simp add: get_other_key get_double_upd Let_def and_then_def or_throw_def)

lemma message_condition_Finite:
  "less_double (Finite (1 / 10 ^ 6))
     (abs_double (minus_double (abs_double (Finite a))
        (clamp (abs_double (Finite a)) (Finite 0) (Finite M_PI))))
   \<longleftrightarrow> 1 / 10 ^ 6 < \<bar>\<bar>a\<bar> - max 0 (min \<bar>a\<bar> M_PI)\<bar>"
proof -
  have "\<bar>\<bar>a\<bar> - max 0 (min \<bar>a\<bar> M_PI)\<bar> = \<bar>a\<bar> - max 0 (min \<bar>a\<bar> M_PI)"
    by (simp add: max_def min_def)
  then show ?thesis
    by (simp add: clamp_Finite minus_double_def)
qed

subsection \<open>The concrete instances, evaluated\<close>

lemmas example_defs = example_config_def example_env_def example_model_def example_group_def
  example_solver_def fresh_process_def

lemma example_lookups:
  "get_string example_config ''planning_group'' = Inr ''arm''"
  "get_double example_config ''distance_threshold'' = Inr (Finite (1 / 2))"
  "getSharedRobotModel example_env ''robot_description'' = Some example_model"
  by (simp_all add: example_defs get_string_def get_double_def)

lemma example_create:
  "DiscretizedMoveItIKSolverFactory_create example_env
     (example_config(''discretization_angle'' \<mapsto> YDouble a)) =
   (if less_double (Finite (1 / 10 ^ 6))
         (abs_double (minus_double (abs_double a) (clamp (abs_double a) (Finite 0) (Finite M_PI))))
    then [ClampingMessage (clamp (abs_double a) (Finite 0) (Finite M_PI))] else [],
    Inr (example_solver (clamp (abs_double a) (Finite 0) (Finite M_PI))))"
  by (simp add: DiscretizedMoveItIKSolverFactory_create_def example_defs
     get_string_def get_double_def and_then_def or_throw_def
     new_DiscretizedMoveItIKSolver_def new_MoveItIKSolver_def
     collision_mesh_filename_key_def touch_links_key_def Let_def)

lemma example_solver_dt: "dt (example_solver d) = d"
  by (simp add: example_solver_def)

lemma example_init:
  "init_n_discretizations (Finite M_PI) = Inr 2"
  "init_n_discretizations (Finite (M_PI / 2)) = Inr 4"
  "init_n_discretizations (Finite 0) = Inl FloatToIntUndefined"
  "init_n_discretizations NaN = Inl FloatToIntUndefined"
proof -
  have "2 * M_PI / M_PI = 2" and "2 * M_PI / (M_PI / 2) = 4"
    by (simp_all add: M_PI_def)
  then show "init_n_discretizations (Finite M_PI) = Inr 2"
    and "init_n_discretizations (Finite (M_PI / 2)) = Inr 4"
    using M_PI_pos by (simp_all add: init_n_discretizations_def rounded_2 rounded_4)
  show "init_n_discretizations (Finite 0) = Inl FloatToIntUndefined"
    using M_PI_pos by (simp add: init_n_discretizations_def signed_infinity_def)
  show "init_n_discretizations NaN = Inl FloatToIntUndefined"
    by (simp add: init_n_discretizations_def)
qed

text \<open>
  The step \<^verbatim>\<open>0x1.247426bd47de3p-1\<close>, the double nearest to \<open>2 * pi / 11\<close>: the exact
  quotient is below 11 and the rounded one is 11.
\<close>

lemma init_at_rounded_up_quotient:
  "init_n_discretizations (Finite (5144900183293411 / 9007199254740992)) = Inr 11"
  "\<lfloor>2 * M_PI / (5144900183293411 / 9007199254740992)\<rfloor> = 10"
proof -
  have "round_to_double (2 * M_PI / (5144900183293411 / 9007199254740992)) = 11"
    using round_to_double_normal [of 3 "2 * M_PI / (5144900183293411 / 9007199254740992)"]
    by (simp add: round_half_even_def M_PI_def Let_def)
  then show "init_n_discretizations (Finite (5144900183293411 / 9007199254740992)) = Inr 11"
    by (simp add: init_n_discretizations_def rounded_def DBL_MAX_def)
  show "\<lfloor>2 * M_PI / (5144900183293411 / 9007199254740992)\<rfloor> = 10"
    by (simp add: M_PI_def)
qed

subsection \<open>Robot states and the validity predicate\<close>

lemma assign_positions_apply:
  "assign_positions st ns vs x = (case map_of (rev (zip ns vs)) x of Some v \<Rightarrow> v | None \<Rightarrow> st x)"
proof (induction st ns vs rule: assign_positions.induct)
  case (1 st n ns v vs)
  have "assign_positions st (n # ns) (v # vs) x = assign_positions (st(n := v)) ns vs x"
    by simp
  also have "\<dots> = (case map_of (rev (zip ns vs)) x of Some w \<Rightarrow> w | None \<Rightarrow> (st(n := v)) x)"
    by (rule 1)
  also have "\<dots> = (case map_of (rev (zip (n # ns) (v # vs))) x of Some w \<Rightarrow> w | None \<Rightarrow> st x)"
    by (simp add: map_add_def split: option.splits)
  finally show ?case .
qed simp_all

lemma assign_positions_idem:
  "assign_positions (assign_positions st ns vs) ns vs = assign_positions st ns vs"
  by (rule ext) (simp add: assign_positions_apply split: option.splits)

lemma assign_positions_outside:
  "x \<notin> set ns \<Longrightarrow> assign_positions st ns vs x = st x"
  by (induction st ns vs rule: assign_positions.induct) auto

lemma assign_positions_full:
  assumes "length ns \<le> length vs" and "\<And>x. x \<notin> set ns \<Longrightarrow> st x = st0 x"
  shows "assign_positions st ns vs = assign_positions st0 ns vs"
proof (rule ext)
  fix x
  show "assign_positions st ns vs x = assign_positions st0 ns vs x"
  proof (cases "x \<in> set ns")
    case True
    then obtain k where "k < length ns" and "ns ! k = x"
      by (auto simp: in_set_conv_nth)
    with assms(1) have "(x, vs ! k) \<in> set (rev (zip ns vs))"
      by (auto simp: set_zip)
    then have "x \<in> fst ` set (rev (zip ns vs))"
      by force
    then obtain v where "map_of (rev (zip ns vs)) x = Some v"
      by (metis domD dom_map_of_conv_image_fst)
    then show ?thesis by (simp add: assign_positions_apply)
  next
    case False
    with assms(2) show ?thesis by (simp add: assign_positions_outside)
  qed
qed

lemma map_assign_positions_distinct:
  "distinct ns \<Longrightarrow> length vs = length ns \<Longrightarrow> map (assign_positions st ns vs) ns = vs"
proof (induction st ns vs rule: assign_positions.induct)
  case (1 st n ns v vs)
  then have n: "n \<notin> set ns" and d: "distinct ns" and l: "length vs = length ns"
    by simp_all
  have tl: "map (assign_positions (st(n := v)) ns vs) ns = vs"
    using d l by (rule "1.IH")
  have hd: "assign_positions (st(n := v)) ns vs n = v"
    using n by (simp add: assign_positions_outside)
  show ?case
    using tl hd by simp
qed simp_all

lemma setJointGroupPositions_idem:
  "setJointGroupPositions (setJointGroupPositions st g q) g q = setJointGroupPositions st g q"
  by (simp add: setJointGroupPositions_def assign_positions_idem)

lemma copy_of_posed_state:
  "distinct (getVariableNames g) \<Longrightarrow> length q = length (getVariableNames g) \<Longrightarrow>
     copyJointGroupPositions (setJointGroupPositions st g q) g = q"
  by (simp add: copyJointGroupPositions_def setJointGroupPositions_def map_assign_positions_distinct)

lemma copy_length: "length (copyJointGroupPositions st g) = length (getVariableNames g)"
  by (simp add: copyJointGroupPositions_def)

lemma isIKSolutionValid_fst:
  "fst (isIKSolutionValid env s st g q) \<longleftrightarrow>
     \<not> isStateColliding env (scene s) (setJointGroupPositions st g q) (getName g) \<and>
     \<not> less_double (distanceToCollision env (scene s) (setJointGroupPositions st g q) (acm (scene s)))
         (distance_threshold s)"
  by (auto simp: isIKSolutionValid_def Let_def)

lemma isIKSolutionValid_snd:
  "snd (isIKSolutionValid env s st g q) = setJointGroupPositions st g q"
  by (simp add: isIKSolutionValid_def Let_def)

subsection \<open>The base solver\<close>

lemma setFromIK_search_accepts:
  "setFromIK_search (isIKSolutionValid env s) st g cands = (True, st') \<Longrightarrow>
     \<exists>st0 sol. sol \<in> set cands \<and> fst (isIKSolutionValid env s st0 g sol) \<and>
        st' = setJointGroupPositions st0 g sol"
proof (induction cands arbitrary: st)
  case Nil
  then show ?case by simp
next
  case (Cons sol sols)
  show ?case
  proof (cases "fst (isIKSolutionValid env s st g sol)")
    case True
    with Cons.prems have "st' = setJointGroupPositions st g sol"
      by (simp add: case_prod_unfold isIKSolutionValid_snd setJointGroupPositions_idem)
    with True show ?thesis by auto
  next
    case False
    with Cons.prems have "setFromIK_search (isIKSolutionValid env s)
        (snd (isIKSolutionValid env s st g sol)) g sols = (True, st')"
      by (simp add: case_prod_unfold)
    from Cons.IH [OF this] show ?thesis by auto
  qed
qed

lemma solveIK_cases:
  "MoveItIKSolver_solveIK env s target seed =
     (if fst (setFromIK env (seed_state s seed) (jmg s) target (isIKSolutionValid env s))
      then [copyJointGroupPositions (accepted_state env s target seed) (jmg s)] else [])"
  by (simp add: MoveItIKSolver_solveIK_def seed_state_def accepted_state_def Let_def
      case_prod_unfold)

lemma solveIK_elem:
  assumes "q \<in> set (MoveItIKSolver_solveIK env s target seed)"
  shows "q = copyJointGroupPositions (accepted_state env s target seed) (jmg s) \<and>
         \<not> isStateColliding env (scene s) (accepted_state env s target seed) (getName (jmg s)) \<and>
         \<not> less_double
             (distanceToCollision env (scene s) (accepted_state env s target seed) (acm (scene s)))
             (distance_threshold s) \<and>
         (\<exists>sol \<in> set (candidates env s target seed).
            setJointGroupPositions (accepted_state env s target seed) (jmg s) sol
              = accepted_state env s target seed \<and>
            (distinct (getVariableNames (jmg s)) \<and> length sol = length (getVariableNames (jmg s))
               \<longrightarrow> q = sol))"
proof -
  define r where "r = setFromIK env (seed_state s seed) (jmg s) target (isIKSolutionValid env s)"
  from assms have f: "fst r" and q: "q = copyJointGroupPositions (snd r) (jmg s)"
    by (auto simp: solveIK_cases accepted_state_def r_def split: if_splits)
  have a: "accepted_state env s target seed = snd r"
    by (simp add: accepted_state_def r_def)
  from f have "setFromIK_search (isIKSolutionValid env s) (seed_state s seed) (jmg s)
       (candidates env s target seed) = (True, snd r)"
    by (simp add: r_def setFromIK_def candidates_def prod_eq_iff)
  from setFromIK_search_accepts [OF this] obtain st0 sol where
    sol: "sol \<in> set (candidates env s target seed)"
    and v: "fst (isIKSolutionValid env s st0 (jmg s) sol)"
    and st: "snd r = setJointGroupPositions st0 (jmg s) sol"
    by blast
  from v st have ok1: "\<not> isStateColliding env (scene s) (snd r) (getName (jmg s))"
    and ok2: "\<not> less_double (distanceToCollision env (scene s) (snd r) (acm (scene s)))
             (distance_threshold s)"
    by (simp_all add: isIKSolutionValid_fst)
  have i: "setJointGroupPositions (snd r) (jmg s) sol = snd r"
    by (simp add: st setJointGroupPositions_idem)
  have e: "distinct (getVariableNames (jmg s)) \<and> length sol = length (getVariableNames (jmg s))
               \<longrightarrow> q = sol"
    by (simp add: q st copy_of_posed_state)
  show ?thesis
    unfolding a using q ok1 ok2 sol i e by blast
qed

lemma solveIK_length: "length (MoveItIKSolver_solveIK env s target seed) \<le> 1"
  by (simp add: solveIK_cases)

lemma setFromIK_search_full:
  assumes "\<forall>sol \<in> set cands. length (getVariableNames g) \<le> length sol"
    and "\<And>x. x \<notin> set (getVariableNames g) \<Longrightarrow> st x = st0 x"
  shows "fst (setFromIK_search (isIKSolutionValid env s) st g cands) \<longleftrightarrow>
           (\<exists>sol \<in> set cands. fst (isIKSolutionValid env s st0 g sol))"
  using assms
proof (induction cands arbitrary: st)
  case Nil
  then show ?case by simp
next
  case (Cons sol sols)
  have pose: "setJointGroupPositions st g sol = setJointGroupPositions st0 g sol"
    unfolding setJointGroupPositions_def
    using Cons.prems by (intro assign_positions_full) auto
  then have same: "fst (isIKSolutionValid env s st g sol) = fst (isIKSolutionValid env s st0 g sol)"
    by (simp add: isIKSolutionValid_fst)
  show ?case
  proof (cases "fst (isIKSolutionValid env s st g sol)")
    case True
    then show ?thesis using same by (simp add: case_prod_unfold)
  next
    case False
    have "fst (setFromIK_search (isIKSolutionValid env s)
                 (snd (isIKSolutionValid env s st g sol)) g sols)
       \<longleftrightarrow> (\<exists>sol \<in> set sols. fst (isIKSolutionValid env s st0 g sol))"
      using Cons.prems
      by (intro Cons.IH)
         (auto simp: isIKSolutionValid_snd setJointGroupPositions_def assign_positions_outside)
    with False same show ?thesis by (simp add: case_prod_unfold)
  qed
qed

lemma solveIK_empty_iff:
  assumes "\<forall>sol \<in> set (candidates env s target seed).
             length (getVariableNames (jmg s)) \<le> length sol"
  shows "MoveItIKSolver_solveIK env s target seed = [] \<longleftrightarrow>
     \<not> (\<exists>sol \<in> set (candidates env s target seed).
          fst (isIKSolutionValid env s (seed_state s seed) (jmg s) sol))"
  using setFromIK_search_full [OF assms, of "seed_state s seed" "seed_state s seed" env s]
  by (simp add: solveIK_cases setFromIK_def candidates_def)

lemma example_base_solve:
  "MoveItIKSolver_solveIK example_env (example_solver d) Identity seed = [[Finite 1, Finite 1]]"
  by (simp add: MoveItIKSolver_solveIK_def example_defs Identity_def new_RobotState_def
      transcribeInputMap_def setJointGroupPositions_def setFromIK_def isIKSolutionValid_def
      copyJointGroupPositions_def Let_def new_PlanningScene_def)

lemma example_candidates:
  "candidates example_env (example_solver d) Identity seed
     = [[Finite (- 1), Finite 1], [Finite 1, Finite 0], [Finite 1, Finite 1], [Finite 2, Finite 2]]"
  "candidates example_env (example_solver d) quarter_turn seed = []"
  by (simp_all add: candidates_def example_defs Identity_def quarter_turn_def)

lemma example_base_fail:
  "MoveItIKSolver_solveIK example_env (example_solver d) quarter_turn seed = []"
  by (simp add: MoveItIKSolver_solveIK_def example_defs quarter_turn_def setFromIK_def Let_def)


lemma example_accepted_state:
  "accepted_state example_env (example_solver d) Identity seed ''j1'' = Finite 1"
  "accepted_state example_env (example_solver d) Identity seed ''j2'' = Finite 1"
  by (simp_all add: accepted_state_def seed_state_def example_defs Identity_def new_RobotState_def
      transcribeInputMap_def setJointGroupPositions_def setFromIK_def isIKSolutionValid_def
      copyJointGroupPositions_def Let_def new_PlanningScene_def)

section \<open>The claims\<close>

text \<open>
  C9. For every raw \<open>discretization_angle\<close>, NaN and the infinities included, the
  discretized factory takes the absolute value and clamps it into \<open>[0, M_PI]\<close> (for a
  finite angle \<open>a\<close> that is \<open>max 0 (min |a| M_PI)\<close>); a solver that is built stores the
  clamped value; when the clamped value differs from the value before clamping by more
  than \<open>1e-6\<close> the clamping message is written (and nothing otherwise) once the required
  options and the robot model have been read; and the outcome of the construction is
  the outcome for the clamped angle, so that an angle out of range never makes
  construction fail.
\<close>

theorem discretized_factory_clamps_angle:
  "(\<exists>c. clamp (abs_double angle) (Finite 0) (Finite M_PI) = Finite c \<and> 0 \<le> c \<and> c \<le> M_PI) \<and>
   clamp (abs_double (Finite a)) (Finite 0) (Finite M_PI) = Finite (max 0 (min \<bar>a\<bar> M_PI)) \<and>
   (\<forall>s. snd (DiscretizedMoveItIKSolverFactory_create env
               (config(''discretization_angle'' \<mapsto> YDouble angle))) = Inr s
        \<longrightarrow> dt s = clamp (abs_double angle) (Finite 0) (Finite M_PI)) \<and>
   snd (DiscretizedMoveItIKSolverFactory_create env
          (config(''discretization_angle'' \<mapsto> YDouble angle)))
     = snd (DiscretizedMoveItIKSolverFactory_create env
              (config(''discretization_angle''
                 \<mapsto> YDouble (clamp (abs_double angle) (Finite 0) (Finite M_PI))))) \<and>
   (get_string config ''planning_group'' = Inr pg \<and>
    get_double config ''distance_threshold'' = Inr thr \<and>
    getSharedRobotModel env ''robot_description'' = Some m
    \<longrightarrow> fst (DiscretizedMoveItIKSolverFactory_create env
               (config(''discretization_angle'' \<mapsto> YDouble angle)))
          = (if less_double (Finite (1 / 10 ^ 6))
                  (abs_double (minus_double (abs_double angle)
                     (clamp (abs_double angle) (Finite 0) (Finite M_PI))))
             then [ClampingMessage (clamp (abs_double angle) (Finite 0) (Finite M_PI))] else [])) \<and>
   (less_double (Finite (1 / 10 ^ 6))
      (abs_double (minus_double (abs_double (Finite a))
         (clamp (abs_double (Finite a)) (Finite 0) (Finite M_PI))))
    \<longleftrightarrow> 1 / 10 ^ 6 < \<bar>\<bar>a\<bar> - max 0 (min \<bar>a\<bar> M_PI)\<bar>)"
proof (intro conjI allI impI)
  show "\<exists>c. clamp (abs_double angle) (Finite 0) (Finite M_PI) = Finite c \<and> 0 \<le> c \<and> c \<le> M_PI"
    by (rule clamp_bounds)
next
  show "clamp (abs_double (Finite a)) (Finite 0) (Finite M_PI) = Finite (max 0 (min \<bar>a\<bar> M_PI))"
    by (simp add: clamp_Finite)
next
  fix s
  assume "snd (DiscretizedMoveItIKSolverFactory_create env
                 (config(''discretization_angle'' \<mapsto> YDouble angle))) = Inr s"
  then show "dt s = clamp (abs_double angle) (Finite 0) (Finite M_PI)"
    by (rule create_dt)
next
  show "snd (DiscretizedMoveItIKSolverFactory_create env
          (config(''discretization_angle'' \<mapsto> YDouble angle)))
     = snd (DiscretizedMoveItIKSolverFactory_create env
              (config(''discretization_angle''
                 \<mapsto> YDouble (clamp (abs_double angle) (Finite 0) (Finite M_PI)))))"
    by (rule create_same)
next
  assume "get_string config ''planning_group'' = Inr pg \<and>
    get_double config ''distance_threshold'' = Inr thr \<and>
    getSharedRobotModel env ''robot_description'' = Some m"
  then show "fst (DiscretizedMoveItIKSolverFactory_create env
               (config(''discretization_angle'' \<mapsto> YDouble angle)))
          = (if less_double (Finite (1 / 10 ^ 6))
                  (abs_double (minus_double (abs_double angle)
                     (clamp (abs_double angle) (Finite 0) (Finite M_PI))))
             then [ClampingMessage (clamp (abs_double angle) (Finite 0) (Finite M_PI))] else [])"
    by (intro create_cout) auto
next
  show "less_double (Finite (1 / 10 ^ 6))
      (abs_double (minus_double (abs_double (Finite a))
         (clamp (abs_double (Finite a)) (Finite 0) (Finite M_PI))))
    \<longleftrightarrow> 1 / 10 ^ 6 < \<bar>\<bar>a\<bar> - max 0 (min \<bar>a\<bar> M_PI)\<bar>"
    by (rule message_condition_Finite)
qed

theorem discretized_factory_clamps_angle_witness:
  "get_string example_config ''planning_group'' = Inr ''arm'' \<and>
   get_double example_config ''distance_threshold'' = Inr (Finite (1 / 2)) \<and>
   getSharedRobotModel example_env ''robot_description'' = Some example_model \<and>
   DiscretizedMoveItIKSolverFactory_create example_env
     (example_config(''discretization_angle'' \<mapsto> YDouble (Finite (- 7))))
     = ([ClampingMessage (Finite M_PI)], Inr (example_solver (Finite M_PI))) \<and>
   dt (example_solver (Finite M_PI)) = clamp (abs_double (Finite (- 7))) (Finite 0) (Finite M_PI) \<and>
   snd (DiscretizedMoveItIKSolverFactory_create example_env
     (example_config(''discretization_angle'' \<mapsto> YDouble (Finite M_PI))))
     = Inr (example_solver (Finite M_PI))"
proof -
  have c: "clamp (abs_double (Finite (- 7))) (Finite 0) (Finite M_PI) = Finite M_PI"
    by (simp add: clamp_Finite M_PI_def)
  have big: "less_double (Finite (1 / 10 ^ 6))
      (abs_double (minus_double (abs_double (Finite (- 7))) (Finite M_PI)))"
    by (simp add: minus_double_def M_PI_def)
  have r: "snd (DiscretizedMoveItIKSolverFactory_create example_env
     (example_config(''discretization_angle'' \<mapsto> YDouble (Finite (- 7)))))
     = Inr (example_solver (Finite M_PI))"
    unfolding example_create c by simp
  note inst = discretized_factory_clamps_angle
    [of "Finite (- 7)" "- 7" example_env example_config "''arm''" "Finite (1 / 2)" example_model]
  from inst have d: "dt (example_solver (Finite M_PI))
      = clamp (abs_double (Finite (- 7))) (Finite 0) (Finite M_PI)"
    using r by blast
  from inst have m: "fst (DiscretizedMoveItIKSolverFactory_create example_env
     (example_config(''discretization_angle'' \<mapsto> YDouble (Finite (- 7)))))
     = [ClampingMessage (Finite M_PI)]"
    using big unfolding c by (simp add: example_lookups)
  from inst have e: "snd (DiscretizedMoveItIKSolverFactory_create example_env
     (example_config(''discretization_angle'' \<mapsto> YDouble (Finite M_PI))))
     = Inr (example_solver (Finite M_PI))"
    using r unfolding c by simp
  from m r have "DiscretizedMoveItIKSolverFactory_create example_env
     (example_config(''discretization_angle'' \<mapsto> YDouble (Finite (- 7))))
     = ([ClampingMessage (Finite M_PI)], Inr (example_solver (Finite M_PI)))"
    by (simp add: prod_eq_iff)
  then show ?thesis
    by (intro conjI example_lookups d e)
qed

text \<open>
  C1, which says that the step stored by the discretized factory is positive. For the
  raw angle \<open>0\<close> the factory writes no message and builds a solver whose step is \<open>0\<close>,
  and the first \<open>solveIK\<close> of that solver divides \<open>2 * M_PI\<close> by zero: the conversion of
  the infinite quotient to \<^verbatim>\<open>int\<close> is undefined. The raw angle NaN is clamped to the
  same step \<open>0\<close>.
\<close>

theorem zero_angle_reaches_the_division:
  "DiscretizedMoveItIKSolverFactory_create example_env
     (example_config(''discretization_angle'' \<mapsto> YDouble (Finite 0)))
     = ([], Inr (example_solver (Finite 0))) \<and>
   dt (example_solver (Finite 0)) = Finite 0 \<and>
   DiscretizedMoveItIKSolver_solveIK example_env fresh_process (example_solver (Finite 0))
     Identity Map.empty
     = (Inl FloatToIntUndefined, fresh_process) \<and>
   DiscretizedMoveItIKSolverFactory_create example_env
     (example_config(''discretization_angle'' \<mapsto> YDouble NaN))
     = ([], Inr (example_solver (Finite 0)))"
proof -
  have z: "clamp (abs_double (Finite 0)) (Finite 0) (Finite M_PI) = Finite 0"
    and n: "clamp (abs_double NaN) (Finite 0) (Finite M_PI) = Finite 0"
    using M_PI_pos by (simp_all add: clamp_def std_min_def std_max_def)
  have a: "DiscretizedMoveItIKSolverFactory_create example_env
     (example_config(''discretization_angle'' \<mapsto> YDouble (Finite 0)))
     = ([], Inr (example_solver (Finite 0)))"
    unfolding example_create z by (simp add: minus_double_def)
  have b: "DiscretizedMoveItIKSolverFactory_create example_env
     (example_config(''discretization_angle'' \<mapsto> YDouble NaN))
     = ([], Inr (example_solver (Finite 0)))"
    unfolding example_create n by (simp add: minus_double_def)
  have c: "DiscretizedMoveItIKSolver_solveIK example_env fresh_process (example_solver (Finite 0))
     Identity Map.empty = (Inl FloatToIntUndefined, fresh_process)"
    by (simp add: DiscretizedMoveItIKSolver_solveIK_def fresh_process_def example_solver_dt
        example_init)
  show ?thesis
    by (intro conjI a b c example_solver_dt)
qed

text \<open>
  C2, which says that the option \<open>collision_mesh_frame\<close> names the frame of the
  obstacle mesh. Both factories look the frame up under the key \<open>collision_mesh_key\<close>:
  with a mesh file and \<open>collision_mesh_frame = part_frame\<close> in the configuration the
  mesh is added in the base frame of the kinematic solver, \<open>base_link\<close>, and it is added
  in \<open>part_frame\<close> when that value is given under \<open>collision_mesh_key\<close>.
\<close>

theorem collision_mesh_frame_option_is_not_read:
  "mesh_frame (MoveItIKSolverFactory_create example_env
       (mesh_config(''collision_mesh_frame'' \<mapsto> YString ''part_frame''))) = Some ''base_link'' \<and>
   mesh_frame (snd (DiscretizedMoveItIKSolverFactory_create example_env
       (mesh_config(''collision_mesh_frame'' \<mapsto> YString ''part_frame'',
                    ''discretization_angle'' \<mapsto> YDouble (Finite 1))))) = Some ''base_link'' \<and>
   mesh_frame (MoveItIKSolverFactory_create example_env
       (mesh_config(''collision_mesh_key'' \<mapsto> YString ''part_frame''))) = Some ''part_frame'' \<and>
   mesh_frame (snd (DiscretizedMoveItIKSolverFactory_create example_env
       (mesh_config(''collision_mesh_key'' \<mapsto> YString ''part_frame'',
                    ''discretization_angle'' \<mapsto> YDouble (Finite 1))))) = Some ''part_frame'' \<and>
   getKinematicBaseFrame (example_solver (Finite 1)) = ''base_link''"
  by (simp add: mesh_frame_def MoveItIKSolverFactory_create_def
      DiscretizedMoveItIKSolverFactory_create_def mesh_config_def example_defs
      get_string_def get_double_def get_strings_def and_then_def or_throw_def
      new_DiscretizedMoveItIKSolver_def new_MoveItIKSolver_def addCollisionMesh_def
      createCollisionObject_def COLLISION_OBJECT_NAME_def getKinematicBaseFrame_def
      collision_mesh_filename_key_def collision_mesh_frame_key_def touch_links_key_def
      new_PlanningScene_def Let_def)

lemma nan_create:
  "MoveItIKSolverFactory_create example_env (example_config(''distance_threshold'' \<mapsto> YDouble NaN))
     = Inr nan_solver"
  by (simp add: MoveItIKSolverFactory_create_def example_defs nan_solver_def
      get_string_def get_double_def and_then_def or_throw_def new_MoveItIKSolver_def
      collision_mesh_filename_key_def touch_links_key_def Let_def)

text \<open>
  C3, as it is stated: accepted if and only if the posed state is not colliding and
  its distance is at least the threshold. The factory accepts the configuration
  \<^verbatim>\<open>distance_threshold: .nan\<close>; the solver it builds accepts the candidate \<open>[1, 1]\<close>, which
  does not collide and has the distance 1, and \<open>1 >= NaN\<close> is false.
\<close>

theorem validity_predicate_accepts_with_nan_threshold:
  "MoveItIKSolverFactory_create example_env (example_config(''distance_threshold'' \<mapsto> YDouble NaN))
     = Inr nan_solver \<and>
   fst (isIKSolutionValid example_env nan_solver (\<lambda>name. Finite 0) example_group
          [Finite 1, Finite 1]) \<and>
   distanceToCollision example_env (scene nan_solver)
       (setJointGroupPositions (\<lambda>name. Finite 0) example_group [Finite 1, Finite 1])
       (acm (scene nan_solver)) = Finite 1 \<and>
   distance_threshold nan_solver = NaN \<and>
   \<not> less_eq_double (distance_threshold nan_solver)
       (distanceToCollision example_env (scene nan_solver)
          (setJointGroupPositions (\<lambda>name. Finite 0) example_group [Finite 1, Finite 1])
          (acm (scene nan_solver)))"
proof -
  have d: "distanceToCollision example_env (scene nan_solver)
       (setJointGroupPositions (\<lambda>name. Finite 0) example_group [Finite 1, Finite 1])
       (acm (scene nan_solver)) = Finite 1"
    by (simp add: example_env_def example_group_def setJointGroupPositions_def)
  have t: "distance_threshold nan_solver = NaN"
    by (simp add: nan_solver_def)
  have v: "fst (isIKSolutionValid example_env nan_solver (\<lambda>name. Finite 0) example_group
          [Finite 1, Finite 1])"
    unfolding isIKSolutionValid_fst d t
    by (simp add: example_env_def example_group_def setJointGroupPositions_def)
  have n: "\<not> less_eq_double (distance_threshold nan_solver)
       (distanceToCollision example_env (scene nan_solver)
          (setJointGroupPositions (\<lambda>name. Finite 0) example_group [Finite 1, Finite 1])
          (acm (scene nan_solver)))"
    unfolding d t by simp
  show ?thesis
    by (intro conjI nan_create v d t n)
qed

text \<open>
  C3, amended. The validity predicate accepts a candidate if and only if the state
  posed at the candidate is not colliding and its distance to the nearest obstacle that
  is not allowed is not less than the distance threshold (the test of the code). When
  neither the distance nor the threshold is NaN, that is: the distance is at least
  the threshold. When one of them is NaN, every candidate that does not collide is
  accepted. So the state of every configuration that the base \<open>solveIK\<close> returns is not
  colliding and, NaN apart, at least the threshold away.
\<close>

theorem validity_predicate_iff:
  "(fst (isIKSolutionValid env s state g ik_solution) \<longleftrightarrow>
      \<not> isStateColliding env (scene s) (setJointGroupPositions state g ik_solution) (getName g) \<and>
      \<not> less_double
          (distanceToCollision env (scene s) (setJointGroupPositions state g ik_solution)
             (acm (scene s)))
          (distance_threshold s)) \<and>
   (distanceToCollision env (scene s) (setJointGroupPositions state g ik_solution) (acm (scene s))
      \<noteq> NaN \<and> distance_threshold s \<noteq> NaN \<longrightarrow>
    (fst (isIKSolutionValid env s state g ik_solution) \<longleftrightarrow>
      \<not> isStateColliding env (scene s) (setJointGroupPositions state g ik_solution) (getName g) \<and>
      less_eq_double (distance_threshold s)
        (distanceToCollision env (scene s) (setJointGroupPositions state g ik_solution)
           (acm (scene s))))) \<and>
   (distanceToCollision env (scene s) (setJointGroupPositions state g ik_solution) (acm (scene s))
      = NaN \<or> distance_threshold s = NaN \<longrightarrow>
    (fst (isIKSolutionValid env s state g ik_solution) \<longleftrightarrow>
      \<not> isStateColliding env (scene s) (setJointGroupPositions state g ik_solution) (getName g))) \<and>
   (\<forall>q \<in> set (MoveItIKSolver_solveIK env s target seed).
      \<not> isStateColliding env (scene s) (accepted_state env s target seed) (getName (jmg s)) \<and>
      (distanceToCollision env (scene s) (accepted_state env s target seed) (acm (scene s)) \<noteq> NaN \<and>
       distance_threshold s \<noteq> NaN \<longrightarrow>
       less_eq_double (distance_threshold s)
         (distanceToCollision env (scene s) (accepted_state env s target seed) (acm (scene s)))))"
proof (intro conjI impI ballI)
  show "fst (isIKSolutionValid env s state g ik_solution) \<longleftrightarrow>
      \<not> isStateColliding env (scene s) (setJointGroupPositions state g ik_solution) (getName g) \<and>
      \<not> less_double
          (distanceToCollision env (scene s) (setJointGroupPositions state g ik_solution)
             (acm (scene s)))
          (distance_threshold s)"
    by (rule isIKSolutionValid_fst)
next
  assume "distanceToCollision env (scene s) (setJointGroupPositions state g ik_solution)
            (acm (scene s)) \<noteq> NaN \<and> distance_threshold s \<noteq> NaN"
  then show "fst (isIKSolutionValid env s state g ik_solution) \<longleftrightarrow>
      \<not> isStateColliding env (scene s) (setJointGroupPositions state g ik_solution) (getName g) \<and>
      less_eq_double (distance_threshold s)
        (distanceToCollision env (scene s) (setJointGroupPositions state g ik_solution)
           (acm (scene s)))"
    by (simp add: isIKSolutionValid_fst not_less_double_iff)
next
  assume "distanceToCollision env (scene s) (setJointGroupPositions state g ik_solution)
            (acm (scene s)) = NaN \<or> distance_threshold s = NaN"
  then show "fst (isIKSolutionValid env s state g ik_solution) \<longleftrightarrow>
      \<not> isStateColliding env (scene s) (setJointGroupPositions state g ik_solution) (getName g)"
    by (auto simp: isIKSolutionValid_fst not_less_double_NaN(1))
next
  fix q
  assume "q \<in> set (MoveItIKSolver_solveIK env s target seed)"
  from solveIK_elem [OF this]
  show "\<not> isStateColliding env (scene s) (accepted_state env s target seed) (getName (jmg s))"
    by blast
next
  fix q
  assume "q \<in> set (MoveItIKSolver_solveIK env s target seed)"
    and "distanceToCollision env (scene s) (accepted_state env s target seed) (acm (scene s))
           \<noteq> NaN \<and> distance_threshold s \<noteq> NaN"
  with solveIK_elem [of q env s target seed]
  show "less_eq_double (distance_threshold s)
         (distanceToCollision env (scene s) (accepted_state env s target seed) (acm (scene s)))"
    by (simp add: not_less_double_iff)
qed

theorem validity_predicate_iff_witness:
  "fst (isIKSolutionValid example_env (example_solver (Finite M_PI)) (\<lambda>name. Finite 0)
          example_group [Finite 1, Finite 1]) \<and>
   \<not> fst (isIKSolutionValid example_env (example_solver (Finite M_PI)) (\<lambda>name. Finite 0)
            example_group [Finite (- 1), Finite 1]) \<and>
   \<not> fst (isIKSolutionValid example_env (example_solver (Finite M_PI)) (\<lambda>name. Finite 0)
            example_group [Finite 1, Finite 0]) \<and>
   fst (isIKSolutionValid example_env (example_solver (Finite M_PI)) (\<lambda>name. Finite 0)
          example_group [Finite 1, NaN]) \<and>
   fst (isIKSolutionValid example_env nan_solver (\<lambda>name. Finite 0)
          example_group [Finite 1, Finite 0]) \<and>
   MoveItIKSolver_solveIK example_env (example_solver (Finite M_PI)) Identity Map.empty
     = [[Finite 1, Finite 1]] \<and>
   distanceToCollision example_env (scene (example_solver (Finite M_PI)))
     (accepted_state example_env (example_solver (Finite M_PI)) Identity Map.empty)
     (acm (scene (example_solver (Finite M_PI)))) = Finite 1 \<and>
   less_eq_double (distance_threshold (example_solver (Finite M_PI)))
     (distanceToCollision example_env (scene (example_solver (Finite M_PI)))
        (accepted_state example_env (example_solver (Finite M_PI)) Identity Map.empty)
        (acm (scene (example_solver (Finite M_PI)))))"
proof -
  note inst = validity_predicate_iff [of example_env "example_solver (Finite M_PI)"
      "\<lambda>name. Finite 0" example_group _ Identity Map.empty]
  have d: "distanceToCollision example_env (scene (example_solver (Finite M_PI)))
     (accepted_state example_env (example_solver (Finite M_PI)) Identity Map.empty)
     (acm (scene (example_solver (Finite M_PI)))) = Finite 1"
    by (simp add: example_env_def example_accepted_state [unfolded example_env_def])
  have t: "distance_threshold (example_solver (Finite M_PI)) = Finite (1 / 2)"
    by (simp add: example_solver_def)
  have "[Finite 1, Finite 1]
          \<in> set (MoveItIKSolver_solveIK example_env (example_solver (Finite M_PI)) Identity Map.empty)"
    by (simp add: example_base_solve)
  with inst [of "[]"] d t
  have far: "less_eq_double (distance_threshold (example_solver (Finite M_PI)))
     (distanceToCollision example_env (scene (example_solver (Finite M_PI)))
        (accepted_state example_env (example_solver (Finite M_PI)) Identity Map.empty)
        (acm (scene (example_solver (Finite M_PI)))))"
    by auto
  have a: "fst (isIKSolutionValid example_env (example_solver (Finite M_PI)) (\<lambda>name. Finite 0)
          example_group [Finite 1, Finite 1])"
    using inst [of "[Finite 1, Finite 1]"]
    by (simp add: example_defs setJointGroupPositions_def)
  have b: "\<not> fst (isIKSolutionValid example_env (example_solver (Finite M_PI)) (\<lambda>name. Finite 0)
            example_group [Finite (- 1), Finite 1])"
    using inst [of "[Finite (- 1), Finite 1]"]
    by (simp add: example_defs setJointGroupPositions_def)
  have c: "\<not> fst (isIKSolutionValid example_env (example_solver (Finite M_PI)) (\<lambda>name. Finite 0)
            example_group [Finite 1, Finite 0])"
    using inst [of "[Finite 1, Finite 0]"]
    by (simp add: example_defs setJointGroupPositions_def)
  have e: "fst (isIKSolutionValid example_env (example_solver (Finite M_PI)) (\<lambda>name. Finite 0)
          example_group [Finite 1, NaN])"
    using inst [of "[Finite 1, NaN]"]
    by (simp add: example_defs setJointGroupPositions_def)
  have f: "fst (isIKSolutionValid example_env nan_solver (\<lambda>name. Finite 0)
          example_group [Finite 1, Finite 0])"
    using validity_predicate_iff [of example_env nan_solver "\<lambda>name. Finite 0" example_group
        "[Finite 1, Finite 0]" Identity Map.empty]
    by (simp add: example_defs nan_solver_def setJointGroupPositions_def)
  show ?thesis
    by (intro conjI a b c e f example_base_solve d far)
qed

text \<open>
  C7. For every target and seed the base solver returns a list (it has no error
  result) of length at most one. An entry is the configuration of the state that
  \<open>setFromIK\<close> left, and that state passes the validity predicate: it is not colliding
  and its distance is not less than the threshold. When every candidate of the
  numerical routine has a value for each variable of the group, the result is empty
  exactly when no candidate passes the predicate, which includes the case of no
  candidate at all.
\<close>

theorem base_solveIK_at_most_one:
  "length (MoveItIKSolver_solveIK env s target seed) \<le> 1 \<and>
   (\<forall>q \<in> set (MoveItIKSolver_solveIK env s target seed).
      q = copyJointGroupPositions (accepted_state env s target seed) (jmg s) \<and>
      \<not> isStateColliding env (scene s) (accepted_state env s target seed) (getName (jmg s)) \<and>
      \<not> less_double
          (distanceToCollision env (scene s) (accepted_state env s target seed) (acm (scene s)))
          (distance_threshold s)) \<and>
   ((\<forall>sol \<in> set (candidates env s target seed).
       length (getVariableNames (jmg s)) \<le> length sol) \<longrightarrow>
    (MoveItIKSolver_solveIK env s target seed = [] \<longleftrightarrow>
       (\<forall>sol \<in> set (candidates env s target seed).
          \<not> fst (isIKSolutionValid env s (seed_state s seed) (jmg s) sol))))"
  using solveIK_length [of env s target seed] solveIK_elem [of _ env s target seed]
    solveIK_empty_iff [of env s target seed]
  by blast

theorem base_solveIK_at_most_one_witness:
  "candidates example_env (example_solver (Finite M_PI)) Identity Map.empty
     = [[Finite (- 1), Finite 1], [Finite 1, Finite 0], [Finite 1, Finite 1], [Finite 2, Finite 2]] \<and>
   MoveItIKSolver_solveIK example_env (example_solver (Finite M_PI)) Identity Map.empty
     = [[Finite 1, Finite 1]] \<and>
   fst (isIKSolutionValid example_env (example_solver (Finite M_PI))
          (seed_state (example_solver (Finite M_PI)) Map.empty) example_group
          [Finite 1, Finite 1]) \<and>
   candidates example_env (example_solver (Finite M_PI)) quarter_turn Map.empty = [] \<and>
   MoveItIKSolver_solveIK example_env (example_solver (Finite M_PI)) quarter_turn Map.empty = []"
proof -
  note inst = base_solveIK_at_most_one
    [of example_env "example_solver (Finite M_PI)" Identity Map.empty]
  note inst' = base_solveIK_at_most_one
    [of example_env "example_solver (Finite M_PI)" quarter_turn Map.empty]
  have v: "fst (isIKSolutionValid example_env (example_solver (Finite M_PI))
          (seed_state (example_solver (Finite M_PI)) Map.empty) example_group
          [Finite 1, Finite 1])"
    by (simp add: isIKSolutionValid_fst example_defs setJointGroupPositions_def)
  from inst' have "MoveItIKSolver_solveIK example_env (example_solver (Finite M_PI))
      quarter_turn Map.empty = []"
    by (simp add: example_candidates)
  moreover from inst
  have "length (MoveItIKSolver_solveIK example_env (example_solver (Finite M_PI))
          Identity Map.empty) \<le> 1"
    by simp
  ultimately show ?thesis
    using v by (simp add: example_candidates example_base_solve)
qed

subsection \<open>The discretized solver\<close>

lemma solveIK_loop_eq:
  "solveIK_loop env s target seed n i (solutions, calls) =
     (solutions @ concat (map (\<lambda>k. take 1 (attempt env s target seed k)) [i..n - 1]),
      calls @ map (candidate_pose target (dt s)) [i..n - 1])"
proof (induction env s target seed n i "(solutions, calls)" arbitrary: solutions calls
    rule: solveIK_loop.induct)
  case (1 env s target seed n i solutions calls)
  show ?case
  proof (cases "i < n")
    case True
    then have up: "[i..n - 1] = i # [i + 1..n - 1]"
      by (simp add: upto_rec1)
    show ?thesis
      using True 1
      apply (subst solveIK_loop.simps)
      apply (simp add: up Let_def attempt_def candidate_pose_def)
      apply (cases "MoveItIKSolver_solveIK env s
                      (times_rotation target
                         (AngleAxisd (times_double (int_to_double i) (dt s)) UnitZ)) seed")
       apply simp_all
      done
  next
    case False
    then show ?thesis by (subst solveIK_loop.simps) simp
  qed
qed

lemma concat_take_1:
  "concat (map (\<lambda>k. take 1 (f k)) ks) = map (\<lambda>k. hd (f k)) (filter (\<lambda>k. f k \<noteq> []) ks)"
proof (induction ks)
  case Nil
  then show ?case by simp
next
  case (Cons k ks)
  then show ?case by (cases "f k") simp_all
qed

lemma solveIK_loop_result:
  "solveIK_loop env s target seed n 0 ([], []) =
     (map (\<lambda>i. hd (attempt env s target seed i))
        (filter (\<lambda>i. attempt env s target seed i \<noteq> []) [0..n - 1]),
      map (candidate_pose target (dt s)) [0..n - 1])"
  by (simp only: solveIK_loop_eq concat_take_1 append_Nil)

lemma discretized_solveIK_Some:
  assumes "n_discretizations proc = Some n"
  shows "DiscretizedMoveItIKSolver_solveIK env proc s target seed =
           (if n < 0 then Inl LengthError
            else Inr (map (\<lambda>i. hd (attempt env s target seed i))
                    (filter (\<lambda>i. attempt env s target seed i \<noteq> []) [0..n - 1]),
                      map (candidate_pose target (dt s)) [0..n - 1]), proc)"
  using assms
  unfolding DiscretizedMoveItIKSolver_solveIK_def
  by (cases proc) (auto simp: Let_def solveIK_loop_result)

lemma discretized_solveIK_None:
  assumes "n_discretizations proc = None" and "init_n_discretizations (dt s) = Inr n"
  shows "DiscretizedMoveItIKSolver_solveIK env proc s target seed =
           (if n < 0 then Inl LengthError
            else Inr (map (\<lambda>i. hd (attempt env s target seed i))
                    (filter (\<lambda>i. attempt env s target seed i \<noteq> []) [0..n - 1]),
                      map (candidate_pose target (dt s)) [0..n - 1]),
            proc\<lparr>n_discretizations := Some n\<rparr>)"
  using assms
  unfolding DiscretizedMoveItIKSolver_solveIK_def
  by (auto simp: Let_def solveIK_loop_result)


lemma toRotationMatrix_UnitZ: "toRotationMatrix (AngleAxisd (Finite a) UnitZ) = Rz a"
  by (simp add: UnitZ_def Rz_def minus_double_def Let_def)

lemma candidate_pose_Finite:
  "candidate_pose target (Finite d) i
     = target\<lparr>linear := mat_mul (linear target) (Rz (real_of_int i * d))\<rparr>"
  by (simp add: candidate_pose_def times_rotation_def int_to_double_def toRotationMatrix_UnitZ)

lemma candidate_pose_translation: "translation (candidate_pose target d i) = translation target"
  by (simp add: candidate_pose_def times_rotation_def)

lemma upto_0_1: "[0..(1::int)] = [0, 1]"
  by (simp add: upto_rec1)

lemma upto_0_3: "[0..(3::int)] = [0, 1, 2, 3]"
  by (simp add: upto_rec1)

lemma uniform_base_solve:
  "MoveItIKSolver_solveIK uniform_env (example_solver d) target seed = [[Finite 1, Finite 1]]"
  by (simp add: MoveItIKSolver_solveIK_def uniform_env_def example_defs new_RobotState_def
      transcribeInputMap_def setJointGroupPositions_def setFromIK_def isIKSolutionValid_def
      copyJointGroupPositions_def Let_def new_PlanningScene_def)

lemma uniform_discretized_2:
  assumes "n_discretizations proc = Some 2 \<or>
           n_discretizations proc = None \<and> init_n_discretizations d = Inr 2"
  shows "DiscretizedMoveItIKSolver_solveIK uniform_env proc (example_solver d) target seed =
     (Inr ([[Finite 1, Finite 1], [Finite 1, Finite 1]],
           [candidate_pose target d 0, candidate_pose target d 1]),
      proc\<lparr>n_discretizations := Some 2\<rparr>)"
  using assms
proof
  assume "n_discretizations proc = Some 2"
  then show ?thesis
    by (cases proc)
       (simp add: discretized_solveIK_Some upto_0_1 attempt_def uniform_base_solve example_solver_dt)
next
  assume "n_discretizations proc = None \<and> init_n_discretizations d = Inr 2"
  then show ?thesis
    by (simp add: discretized_solveIK_None upto_0_1 attempt_def uniform_base_solve example_solver_dt)
qed

lemma uniform_discretized_4:
  assumes "n_discretizations proc = Some 4 \<or>
           n_discretizations proc = None \<and> init_n_discretizations d = Inr 4"
  shows "DiscretizedMoveItIKSolver_solveIK uniform_env proc (example_solver d) target seed =
     (Inr ([[Finite 1, Finite 1], [Finite 1, Finite 1], [Finite 1, Finite 1], [Finite 1, Finite 1]],
           [candidate_pose target d 0, candidate_pose target d 1,
            candidate_pose target d 2, candidate_pose target d 3]),
      proc\<lparr>n_discretizations := Some 4\<rparr>)"
  using assms
proof
  assume "n_discretizations proc = Some 4"
  then show ?thesis
    by (cases proc)
       (simp add: discretized_solveIK_Some upto_0_3 attempt_def uniform_base_solve example_solver_dt)
next
  assume "n_discretizations proc = None \<and> init_n_discretizations d = Inr 4"
  then show ?thesis
    by (simp add: discretized_solveIK_None upto_0_3 attempt_def uniform_base_solve example_solver_dt)
qed

lemma calls_in_process_initialised:
  assumes "n_discretizations proc = Some n"
  shows "snd (calls_in_process env proc cs) = proc \<and>
         (\<forall>r \<in> set (fst (calls_in_process env proc cs)).
            if 0 \<le> n then attempts_made r = Some (nat n) else r = Inl LengthError)"
  using assms
proof (induction cs)
  case Nil
  then show ?case by simp
next
  case (Cons c cs)
  obtain s target seed where c: "c = (s, target, seed)"
    by (cases c rule: prod_cases3)
  from Cons.prems have step: "DiscretizedMoveItIKSolver_solveIK env proc s target seed =
      (if n < 0 then Inl LengthError
       else Inr (map (\<lambda>i. hd (attempt env s target seed i))
              (filter (\<lambda>i. attempt env s target seed i \<noteq> []) [0..n - 1]),
            map (candidate_pose target (dt s)) [0..n - 1]), proc)"
    by (simp add: discretized_solveIK_Some)
  have pr: "snd (DiscretizedMoveItIKSolver_solveIK env proc s target seed) = proc"
    by (simp add: step)
  have hd: "if 0 \<le> n
            then attempts_made (fst (DiscretizedMoveItIKSolver_solveIK env proc s target seed))
                   = Some (nat n)
            else fst (DiscretizedMoveItIKSolver_solveIK env proc s target seed) = Inl LengthError"
    by (simp add: step attempts_made_def)
  from Cons.IH [OF Cons.prems] have tl: "snd (calls_in_process env proc cs) = proc"
    and all: "\<forall>r \<in> set (fst (calls_in_process env proc cs)).
            if 0 \<le> n then attempts_made r = Some (nat n) else r = Inl LengthError"
    by blast+
  show ?case
    unfolding c calls_in_process.simps Let_def case_prod_unfold pr
    using hd tl all by (cases "0 \<le> n") simp_all
qed

text \<open>
  C10. The number of discretizations is computed once in a process. When the first
  call of the discretized \<open>solveIK\<close> in a process is made by a solver \<open>s0\<close> whose
  initialiser \<^verbatim>\<open>int((2.0 * M_PI) / dt_)\<close> has the value \<open>n\<close>, the stored number is \<open>n\<close>
  after every call of the process, and every call, the first one and every later one
  by any solver with any step, makes \<open>n\<close> base solves (or fails in \<^verbatim>\<open>reserve\<close> when \<open>n\<close>
  is negative): the number is never computed again from the step of the caller.
\<close>

theorem static_count_is_fixed_by_the_first_call:
  assumes "n_discretizations proc = None" and "init_n_discretizations (dt s0) = Inr n"
  shows "n_discretizations (snd (calls_in_process env proc ((s0, target0, seed0) # cs))) = Some n \<and>
         (\<forall>r \<in> set (fst (calls_in_process env proc ((s0, target0, seed0) # cs))).
            if 0 \<le> n then attempts_made r = Some (nat n) else r = Inl LengthError)"
proof -
  define proc' where "proc' = proc\<lparr>n_discretizations := Some n\<rparr>"
  have first: "DiscretizedMoveItIKSolver_solveIK env proc s0 target0 seed0 =
      (if n < 0 then Inl LengthError
       else Inr (map (\<lambda>i. hd (attempt env s0 target0 seed0 i))
              (filter (\<lambda>i. attempt env s0 target0 seed0 i \<noteq> []) [0..n - 1]),
            map (candidate_pose target0 (dt s0)) [0..n - 1]), proc')"
    by (simp add: discretized_solveIK_None [OF assms] proc'_def)
  have p: "n_discretizations proc' = Some n"
    by (simp add: proc'_def)
  have pr: "snd (DiscretizedMoveItIKSolver_solveIK env proc s0 target0 seed0) = proc'"
    by (simp add: first)
  have hd: "if 0 \<le> n
            then attempts_made (fst (DiscretizedMoveItIKSolver_solveIK env proc s0 target0 seed0))
                   = Some (nat n)
            else fst (DiscretizedMoveItIKSolver_solveIK env proc s0 target0 seed0) = Inl LengthError"
    by (simp add: first attempts_made_def)
  from calls_in_process_initialised [OF p, of env cs]
  have tl: "snd (calls_in_process env proc' cs) = proc'"
    and all: "\<forall>r \<in> set (fst (calls_in_process env proc' cs)).
            if 0 \<le> n then attempts_made r = Some (nat n) else r = Inl LengthError"
    by blast+
  show ?thesis
    unfolding calls_in_process.simps Let_def case_prod_unfold pr
    using hd tl all p by (cases "0 \<le> n") simp_all
qed

lemma example_two_solvers:
  "calls_in_process uniform_env fresh_process
     [(example_solver (Finite M_PI), target, Map.empty),
      (example_solver (Finite (M_PI / 2)), target, Map.empty)]
   = ([Inr ([[Finite 1, Finite 1], [Finite 1, Finite 1]],
            [candidate_pose target (Finite M_PI) 0, candidate_pose target (Finite M_PI) 1]),
       Inr ([[Finite 1, Finite 1], [Finite 1, Finite 1]],
            [candidate_pose target (Finite (M_PI / 2)) 0,
             candidate_pose target (Finite (M_PI / 2)) 1])],
      \<lparr>n_discretizations = Some 2\<rparr>)"
  by (simp add: uniform_discretized_2 example_init fresh_process_def)

lemma example_two_solvers_swapped:
  "calls_in_process uniform_env fresh_process
     [(example_solver (Finite (M_PI / 2)), target, Map.empty),
      (example_solver (Finite M_PI), target, Map.empty)]
   = ([Inr ([[Finite 1, Finite 1], [Finite 1, Finite 1], [Finite 1, Finite 1], [Finite 1, Finite 1]],
            [candidate_pose target (Finite (M_PI / 2)) 0, candidate_pose target (Finite (M_PI / 2)) 1,
             candidate_pose target (Finite (M_PI / 2)) 2, candidate_pose target (Finite (M_PI / 2)) 3]),
       Inr ([[Finite 1, Finite 1], [Finite 1, Finite 1], [Finite 1, Finite 1], [Finite 1, Finite 1]],
            [candidate_pose target (Finite M_PI) 0, candidate_pose target (Finite M_PI) 1,
             candidate_pose target (Finite M_PI) 2, candidate_pose target (Finite M_PI) 3])],
      \<lparr>n_discretizations = Some 4\<rparr>)"
  by (simp add: uniform_discretized_4 example_init fresh_process_def)

theorem static_count_is_fixed_by_the_first_call_witness:
  "n_discretizations fresh_process = None \<and>
   init_n_discretizations (dt (example_solver (Finite M_PI))) = Inr 2 \<and>
   init_n_discretizations (dt (example_solver (Finite (M_PI / 2)))) = Inr 4 \<and>
   map attempts_made (fst (calls_in_process uniform_env fresh_process
     [(example_solver (Finite M_PI), Identity, Map.empty),
      (example_solver (Finite (M_PI / 2)), Identity, Map.empty)]))
     = [Some 2, Some 2] \<and>
   n_discretizations (snd (calls_in_process uniform_env fresh_process
     [(example_solver (Finite M_PI), Identity, Map.empty),
      (example_solver (Finite (M_PI / 2)), Identity, Map.empty)]))
     = Some 2 \<and>
   init_n_discretizations (dt (example_solver (Finite (5144900183293411 / 9007199254740992))))
     = Inr 11 \<and>
   attempts_made (fst (DiscretizedMoveItIKSolver_solveIK uniform_env fresh_process
     (example_solver (Finite (5144900183293411 / 9007199254740992))) Identity Map.empty))
     = Some 11"
proof -
  have h1: "n_discretizations fresh_process = None"
    by (simp add: fresh_process_def)
  have h2: "init_n_discretizations (dt (example_solver (Finite M_PI))) = Inr 2"
    by (simp add: example_solver_dt example_init)
  have g: "init_n_discretizations (dt (example_solver (Finite (M_PI / 2)))) = Inr 4"
    by (simp add: example_solver_dt example_init)
  have h3: "init_n_discretizations
      (dt (example_solver (Finite (5144900183293411 / 9007199254740992)))) = Inr 11"
    by (simp add: example_solver_dt init_at_rounded_up_quotient)
  note inst = static_count_is_fixed_by_the_first_call [OF h1 h2, of uniform_env Identity Map.empty
      "[(example_solver (Finite (M_PI / 2)), Identity, Map.empty)]"]
  from inst have last: "n_discretizations (snd (calls_in_process uniform_env fresh_process
     [(example_solver (Finite M_PI), Identity, Map.empty),
      (example_solver (Finite (M_PI / 2)), Identity, Map.empty)]))
     = Some 2"
    by blast
  have m: "map attempts_made (fst (calls_in_process uniform_env fresh_process
     [(example_solver (Finite M_PI), Identity, Map.empty),
      (example_solver (Finite (M_PI / 2)), Identity, Map.empty)]))
     = [Some 2, Some 2]"
    unfolding example_two_solvers by (simp add: attempts_made_def)
  note inst11 = static_count_is_fixed_by_the_first_call [OF h1 h3, of uniform_env Identity
      Map.empty "[]"]
  have e: "attempts_made (fst (DiscretizedMoveItIKSolver_solveIK uniform_env fresh_process
     (example_solver (Finite (5144900183293411 / 9007199254740992))) Identity Map.empty))
     = Some 11"
    using inst11 by (simp add: case_prod_unfold Let_def)
  show ?thesis
    by (intro conjI h1 h2 g m last h3 e)
qed

text \<open>
  C4, which says that a call of a solver with step \<open>dt\<close> makes \<open>floor (2 * M_PI / dt)\<close>
  base solves. In a process where a solver with step \<open>M_PI\<close> has called \<open>solveIK\<close>
  first, a solver with step \<open>M_PI / 2\<close>, which lies in \<open>(0, M_PI]\<close> and for which
  \<open>floor (2 * M_PI / dt)\<close> is 4, as is the value of its own initialiser, makes 2 base
  solves, at the angles \<open>0\<close> and \<open>M_PI / 2\<close>.
\<close>

theorem second_solver_makes_the_first_solvers_attempts:
  "calls_in_process uniform_env fresh_process
     [(example_solver (Finite M_PI), Identity, Map.empty),
      (example_solver (Finite (M_PI / 2)), Identity, Map.empty)]
   = ([Inr ([[Finite 1, Finite 1], [Finite 1, Finite 1]],
            [candidate_pose Identity (Finite M_PI) 0, candidate_pose Identity (Finite M_PI) 1]),
       Inr ([[Finite 1, Finite 1], [Finite 1, Finite 1]],
            [candidate_pose Identity (Finite (M_PI / 2)) 0,
             candidate_pose Identity (Finite (M_PI / 2)) 1])],
      \<lparr>n_discretizations = Some 2\<rparr>) \<and>
   dt (example_solver (Finite (M_PI / 2))) = Finite (M_PI / 2) \<and>
   0 < M_PI / 2 \<and> M_PI / 2 \<le> M_PI \<and>
   \<lfloor>2 * M_PI / (M_PI / 2)\<rfloor> = 4 \<and>
   init_n_discretizations (dt (example_solver (Finite (M_PI / 2)))) = Inr 4"
proof -
  have "0 < M_PI / 2" and "M_PI / 2 \<le> M_PI" and "\<lfloor>2 * M_PI / (M_PI / 2)\<rfloor> = 4"
    by (simp_all add: M_PI_def)
  moreover have "init_n_discretizations (dt (example_solver (Finite (M_PI / 2)))) = Inr 4"
    by (simp add: example_solver_dt example_init)
  ultimately show ?thesis
    by (intro conjI example_two_solvers example_solver_dt)
qed

text \<open>
  C5, which says that a candidate pose is generated for every sample index in
  \<open>0 .. N - 1\<close>, \<open>N\<close> being \<open>floor (2 * M_PI / dt)\<close>. In a process where a solver with
  step \<open>M_PI\<close> has called \<open>solveIK\<close> first, the solver with step \<open>M_PI / 2\<close>, for which
  \<open>N\<close> is 4, hands two targets to the base solver: those of the indices 0 and 1. They
  are the nominal target composed on the right with the rotation by \<open>i * dt\<close> about Z,
  with the translation of the nominal target; no pose is generated for the indices
  2 and 3.
\<close>

theorem second_solver_generates_no_pose_for_its_last_indices:
  "map (map_sum id snd) (fst (calls_in_process uniform_env fresh_process
     [(example_solver (Finite M_PI), quarter_turn, Map.empty),
      (example_solver (Finite (M_PI / 2)), quarter_turn, Map.empty)]))
   = [Inr [candidate_pose quarter_turn (Finite M_PI) 0, candidate_pose quarter_turn (Finite M_PI) 1],
      Inr [candidate_pose quarter_turn (Finite (M_PI / 2)) 0,
           candidate_pose quarter_turn (Finite (M_PI / 2)) 1]] \<and>
   candidate_pose quarter_turn (Finite (M_PI / 2)) 0
     = quarter_turn\<lparr>linear := mat_mul (linear quarter_turn) (Rz 0)\<rparr> \<and>
   candidate_pose quarter_turn (Finite (M_PI / 2)) 1
     = quarter_turn\<lparr>linear := mat_mul (linear quarter_turn) (Rz (M_PI / 2))\<rparr> \<and>
   translation (candidate_pose quarter_turn (Finite (M_PI / 2)) 1) = (Finite 1, Finite 2, Finite 3) \<and>
   \<lfloor>2 * M_PI / (M_PI / 2)\<rfloor> = 4"
proof -
  have a: "map (map_sum id snd) (fst (calls_in_process uniform_env fresh_process
     [(example_solver (Finite M_PI), quarter_turn, Map.empty),
      (example_solver (Finite (M_PI / 2)), quarter_turn, Map.empty)]))
   = [Inr [candidate_pose quarter_turn (Finite M_PI) 0, candidate_pose quarter_turn (Finite M_PI) 1],
      Inr [candidate_pose quarter_turn (Finite (M_PI / 2)) 0,
           candidate_pose quarter_turn (Finite (M_PI / 2)) 1]]"
    unfolding example_two_solvers by simp
  have b: "candidate_pose quarter_turn (Finite (M_PI / 2)) 0
     = quarter_turn\<lparr>linear := mat_mul (linear quarter_turn) (Rz 0)\<rparr>"
    and c: "candidate_pose quarter_turn (Finite (M_PI / 2)) 1
     = quarter_turn\<lparr>linear := mat_mul (linear quarter_turn) (Rz (M_PI / 2))\<rparr>"
    by (simp_all add: candidate_pose_Finite)
  have d: "translation (candidate_pose quarter_turn (Finite (M_PI / 2)) 1)
     = (Finite 1, Finite 2, Finite 3)"
    by (simp add: candidate_pose_translation quarter_turn_def)
  have e: "\<lfloor>2 * M_PI / (M_PI / 2)\<rfloor> = 4"
    by (simp add: M_PI_def)
  show ?thesis
    by (intro conjI a b c d e)
qed

text \<open>
  C6, which says that the returned sequence has one entry per successful sample index
  and at most \<open>N\<close> entries, \<open>N\<close> being \<open>floor (2 * M_PI / dt)\<close>. In a process where a
  solver with step \<open>M_PI / 2\<close> has called \<open>solveIK\<close> first, the solver with step \<open>M_PI\<close>,
  for which \<open>N\<close> is 2, as is the value of its own initialiser, returns four entries:
  those of the indices 0 to 3.
\<close>

theorem second_solver_returns_more_than_its_count:
  "calls_in_process uniform_env fresh_process
     [(example_solver (Finite (M_PI / 2)), Identity, Map.empty),
      (example_solver (Finite M_PI), Identity, Map.empty)]
   = ([Inr ([[Finite 1, Finite 1], [Finite 1, Finite 1], [Finite 1, Finite 1], [Finite 1, Finite 1]],
            [candidate_pose Identity (Finite (M_PI / 2)) 0, candidate_pose Identity (Finite (M_PI / 2)) 1,
             candidate_pose Identity (Finite (M_PI / 2)) 2, candidate_pose Identity (Finite (M_PI / 2)) 3]),
       Inr ([[Finite 1, Finite 1], [Finite 1, Finite 1], [Finite 1, Finite 1], [Finite 1, Finite 1]],
            [candidate_pose Identity (Finite M_PI) 0, candidate_pose Identity (Finite M_PI) 1,
             candidate_pose Identity (Finite M_PI) 2, candidate_pose Identity (Finite M_PI) 3])],
      \<lparr>n_discretizations = Some 4\<rparr>) \<and>
   dt (example_solver (Finite M_PI)) = Finite M_PI \<and>
   \<lfloor>2 * M_PI / M_PI\<rfloor> = 2 \<and>
   init_n_discretizations (dt (example_solver (Finite M_PI))) = Inr 2"
proof -
  have "\<lfloor>2 * M_PI / M_PI\<rfloor> = 2"
    by (simp add: M_PI_def)
  moreover have "init_n_discretizations (dt (example_solver (Finite M_PI))) = Inr 2"
    by (simp add: example_solver_dt example_init)
  ultimately show ?thesis
    by (intro conjI example_two_solvers_swapped example_solver_dt)
qed






end
